theory Spec2Isabelle
  imports Complex_Main "HOL-Library.AList" "HOL-Library.Log_Nat"
begin

section \<open>Data model (shared/schema.ts)\<close>

text \<open>
  Timestamps are the values of \<^verbatim>\<open>Date.getTime()\<close>: integer milliseconds since the epoch.
  Money is an integer count of paise. JavaScript numbers that hold integers (ids, coins,
  streaks, amounts) are modelled as unbounded integers; every sum in the code stays far
  below \<open>2 ^ 53\<close> for the values the schema's 32-bit \<^verbatim>\<open>integer\<close> columns admit.
\<close>

type_synonym timestamp = int

record user =
  u_id :: nat
  username :: string
  password :: string
  u_name :: string
  coins :: int
  streak :: int
  lastLogin :: "timestamp option"

text \<open>\<^verbatim>\<open>InsertUser\<close>: the three text columns are required, the rest optional.\<close>

record insert_user =
  i_username :: string
  i_password :: string
  i_name :: string
  i_coins :: "int option"
  i_streak :: "int option"
  i_lastLogin :: "timestamp option"

text \<open>
  \<^verbatim>\<open>Partial<Omit<User, "id">>\<close>: a field that is \<open>None\<close> is a key the object does not have.
  \<^verbatim>\<open>lastLogin\<close> is nullable, so a present key carries a \<open>timestamp option\<close>.
\<close>

record user_data =
  d_username :: "string option"
  d_password :: "string option"
  d_name :: "string option"
  d_coins :: "int option"
  d_streak :: "int option"
  d_lastLogin :: "timestamp option option"

definition no_user_data :: user_data where
  "no_user_data = \<lparr>d_username = None, d_password = None, d_name = None,
     d_coins = None, d_streak = None, d_lastLogin = None\<rparr>"

text \<open>Expense, saving, goal and achievement rows. \<^verbatim>\<open>status\<close> and \<^verbatim>\<open>category\<close> are text.\<close>

record expense =
  e_id :: nat
  e_userId :: nat
  e_name :: string
  e_amount :: int
  e_date :: timestamp
  e_status :: string
  e_category :: string

record insert_expense =
  ie_userId :: nat
  ie_name :: string
  ie_amount :: int
  ie_date :: timestamp
  ie_status :: string
  ie_category :: string

record saving =
  s_id :: nat
  s_userId :: nat
  s_amount :: int
  s_date :: timestamp
  s_source :: string

record insert_saving =
  is_userId :: nat
  is_amount :: int
  is_date :: timestamp
  is_source :: string

record goal =
  g_id :: nat
  g_userId :: nat
  g_name :: string
  targetAmount :: int
  currentAmount :: int
  g_startDate :: timestamp
  g_targetDate :: timestamp
  completed :: bool

text \<open>
  \<^verbatim>\<open>InsertGoal\<close>: \<^verbatim>\<open>insertGoalSchema\<close> omits \<^verbatim>\<open>id\<close>, \<^verbatim>\<open>currentAmount\<close> and
  \<^verbatim>\<open>completed\<close>. A client may still send the two keys; they are kept here as optional
  fields so that \<^verbatim>\<open>createGoal\<close> can be seen to discard them.
\<close>

record insert_goal =
  ig_userId :: nat
  ig_name :: string
  ig_targetAmount :: int
  ig_startDate :: timestamp
  ig_targetDate :: timestamp
  ig_currentAmount :: "int option"
  ig_completed :: "bool option"

text \<open>
  The JSON body of \<^verbatim>\<open>PUT /api/goals/:id\<close>, which reaches \<^verbatim>\<open>updateGoal\<close> unfiltered: any
  column of the row may be present, \<^verbatim>\<open>id\<close> included. Keys that are not columns end up as
  extra properties of the stored object and change no column.
\<close>

record goal_data =
  gd_id :: "nat option"
  gd_userId :: "nat option"
  gd_name :: "string option"
  gd_targetAmount :: "int option"
  gd_currentAmount :: "int option"
  gd_startDate :: "timestamp option"
  gd_targetDate :: "timestamp option"
  gd_completed :: "bool option"

definition no_goal_data :: goal_data where
  "no_goal_data = \<lparr>gd_id = None, gd_userId = None, gd_name = None, gd_targetAmount = None,
     gd_currentAmount = None, gd_startDate = None, gd_targetDate = None, gd_completed = None\<rparr>"

record achievement =
  a_id :: nat
  a_userId :: nat
  a_type :: string
  a_name :: string
  a_description :: string
  a_date :: timestamp
  coinsAwarded :: int

record insert_achievement =
  ia_userId :: nat
  ia_type :: string
  ia_name :: string
  ia_description :: string
  ia_date :: timestamp
  ia_coinsAwarded :: "int option"

section \<open>Storage (MemStorage)\<close>

text \<open>
  Each table is a JavaScript \<^verbatim>\<open>Map\<close> from id to row: an association list in insertion
  order, where \<^verbatim>\<open>set\<close> on an existing key replaces the row in place
  (\<^const>\<open>AList.update\<close>), \<^verbatim>\<open>get\<close> is \<^const>\<open>map_of\<close> and \<^verbatim>\<open>values()\<close> is
  \<open>map snd\<close>. \<^verbatim>\<open>DatabaseStorage\<close> issues the same reads and absolute writes as SQL.
\<close>

record storage =
  users :: "(nat \<times> user) list"
  expenses :: "(nat \<times> expense) list"
  savings :: "(nat \<times> saving) list"
  goals :: "(nat \<times> goal) list"
  achievements :: "(nat \<times> achievement) list"
  userIdCounter :: nat
  expenseIdCounter :: nat
  savingIdCounter :: nat
  goalIdCounter :: nat
  achievementIdCounter :: nat

definition getUser :: "storage \<Rightarrow> nat \<Rightarrow> user option" where
  "getUser st i = map_of (users st) i"

definition getUserByUsername :: "storage \<Rightarrow> string \<Rightarrow> user option" where
  "getUserByUsername st uname = find (\<lambda>user. username user = uname) (map snd (users st))"

text \<open>\<^verbatim>\<open>a ?? b\<close>: \<open>b\<close> when \<open>a\<close> is null or undefined.\<close>

definition nullish :: "'a option \<Rightarrow> 'a \<Rightarrow> 'a" where
  "nullish a b = (case a of None \<Rightarrow> b | Some x \<Rightarrow> x)"

text \<open>\<^verbatim>\<open>createUser\<close> reads the clock for \<^verbatim>\<open>user.lastLogin ?? new Date()\<close>.\<close>

definition createUser :: "storage \<Rightarrow> insert_user \<Rightarrow> timestamp \<Rightarrow> storage \<times> user" where
  "createUser st user now =
     (let i = userIdCounter st;
          newUser = \<lparr>u_id = i, username = i_username user, password = i_password user,
                      u_name = i_name user,
                      coins = nullish (i_coins user) 0,
                      streak = nullish (i_streak user) 0,
                      lastLogin = Some (nullish (i_lastLogin user) now)\<rparr>
      in (st\<lparr>users := AList.update i newUser (users st), userIdCounter := i + 1\<rparr>, newUser))"

text \<open>\<^verbatim>\<open>{ ...user, ...data }\<close>: every key of \<open>data\<close> overwrites the stored value.\<close>

definition spread_key :: "'a option \<Rightarrow> 'a \<Rightarrow> 'a" where
  "spread_key new old = (case new of None \<Rightarrow> old | Some x \<Rightarrow> x)"

definition merge_user :: "user \<Rightarrow> user_data \<Rightarrow> user" where
  "merge_user user d =
     user\<lparr>username := spread_key (d_username d) (username user),
          password := spread_key (d_password d) (password user),
          u_name := spread_key (d_name d) (u_name user),
          coins := spread_key (d_coins d) (coins user),
          streak := spread_key (d_streak d) (streak user),
          lastLogin := spread_key (d_lastLogin d) (lastLogin user)\<rparr>"

definition updateUser :: "storage \<Rightarrow> nat \<Rightarrow> user_data \<Rightarrow> storage \<times> user option" where
  "updateUser st i d =
     (case map_of (users st) i of
        None \<Rightarrow> (st, None)
      | Some user \<Rightarrow>
          (let updatedUser = merge_user user d
           in (st\<lparr>users := AList.update i updatedUser (users st)\<rparr>, Some updatedUser)))"

section \<open>Authentication routes (auth.ts)\<close>

text \<open>
  \<^verbatim>\<open>POST /api/auth/register\<close>. The body's own \<^verbatim>\<open>coins\<close>, \<^verbatim>\<open>streak\<close> and
  \<^verbatim>\<open>lastLogin\<close> keys are overwritten by the keys written after the spread. The salted
  scrypt hash is a parameter.
\<close>

definition register :: "storage \<Rightarrow> insert_user \<Rightarrow> string \<Rightarrow> timestamp \<Rightarrow> storage \<times> user option" where
  "register st body hashedPassword now =
     (case getUserByUsername st (i_username body) of
        Some existingUser \<Rightarrow> (st, None)
      | None \<Rightarrow>
          (let (st', user) = createUser st
                 (body\<lparr>i_password := hashedPassword, i_coins := Some 0, i_streak := Some 0,
                       i_lastLogin := Some now\<rparr>) now
           in (st', Some user)))"

text \<open>
  \<^verbatim>\<open>(now.getTime() - lastLogin.getTime()) / (1000 * 60 * 60)\<close>. The quotient is kept exact:
  the dividend is an integer and the thresholds \<open>20\<close> and \<open>48\<close> are whole, so rounding
  the quotient to a double cannot move it across either threshold.
\<close>

definition hoursSinceLastLogin :: "timestamp \<Rightarrow> timestamp \<Rightarrow> rat" where
  "hoursSinceLastLogin now t = of_int (now - t) / (1000 * 60 * 60)"

text \<open>JavaScript's \<^verbatim>\<open>%\<close> on integers: the remainder takes the sign of the dividend.\<close>

definition js_rem :: "int \<Rightarrow> int \<Rightarrow> int" where
  "js_rem a b = sgn a * (\<bar>a\<bar> mod \<bar>b\<bar>)"

text \<open>
  The streak computation of \<^verbatim>\<open>POST /api/auth/login\<close>, lines 137 to 167: the pair
  \<open>(newStreak, coinsAwarded)\<close>. \<^verbatim>\<open>user.lastLogin || new Date(0)\<close> is the epoch when the
  column is null.
\<close>

definition loginStreak :: "user \<Rightarrow> timestamp \<Rightarrow> int \<times> int" where
  "loginStreak user now =
     (let last = (case lastLogin user of None \<Rightarrow> 0 | Some t \<Rightarrow> t);
          hours = hoursSinceLastLogin now last;
          newStreak = streak user;
          awarded = 0
      in if hours > 20 then
           (if hours < 48 then
              (let newStreak = newStreak + 1;
                   awarded = awarded + 15
               in if newStreak = 5 \<or> js_rem newStreak 5 = 0
                  then (newStreak, awarded + 20)
                  else (newStreak, awarded))
            else (1, 15))
         else (newStreak, awarded))"

record login_response =
  r_user :: user
  r_coinsAwarded :: "int option"

text \<open>
  Lines 169 to 183: the write and the response. \<open>user\<close> is the row the passport strategy
  read with \<^verbatim>\<open>getUserByUsername\<close>.
\<close>

definition loginHandler :: "storage \<Rightarrow> user \<Rightarrow> timestamp \<Rightarrow> storage \<times> login_response" where
  "loginHandler st user now =
     (let (newStreak, awarded) = loginStreak user now;
          updatedCoins = coins user + awarded;
          (st', updatedUser) = updateUser st (u_id user)
             (no_user_data\<lparr>d_lastLogin := Some (Some now), d_streak := Some newStreak,
                           d_coins := Some updatedCoins\<rparr>)
      in (st', \<lparr>r_user = (case updatedUser of Some u \<Rightarrow> u | None \<Rightarrow> user),
                r_coinsAwarded = (if awarded > 0 then Some awarded else None)\<rparr>))"

text \<open>
  The whole login: \<open>passwordOk\<close> stands for the outcome of the password comparison
  (or of the demo-account shortcut). A failed authentication answers 401 and writes nothing.
\<close>

definition login :: "storage \<Rightarrow> string \<Rightarrow> bool \<Rightarrow> timestamp \<Rightarrow> storage \<times> login_response option" where
  "login st uname passwordOk now =
     (case getUserByUsername st uname of
        None \<Rightarrow> (st, None)
      | Some user \<Rightarrow>
          if \<not> passwordOk then (st, None)
          else (let (st', r) = loginHandler st user now in (st', Some r)))"

section \<open>Storage: expenses, savings, goals, achievements\<close>

definition createExpense :: "storage \<Rightarrow> insert_expense \<Rightarrow> storage \<times> expense" where
  "createExpense st expense =
     (let i = expenseIdCounter st;
          newExpense = \<lparr>e_id = i, e_userId = ie_userId expense, e_name = ie_name expense,
                         e_amount = ie_amount expense, e_date = ie_date expense,
                         e_status = ie_status expense, e_category = ie_category expense\<rparr>
      in (st\<lparr>expenses := AList.update i newExpense (expenses st), expenseIdCounter := i + 1\<rparr>,
          newExpense))"

text \<open>
  \<^verbatim>\<open>getExpensesByDateRange\<close>: both ends of the range are included. The rows come back
  newest first; the stable insertion sort is what \<^verbatim>\<open>Array.prototype.sort\<close> does with the
  comparator \<^verbatim>\<open>b.date - a.date\<close>.
\<close>

definition getExpensesByDateRange :: "storage \<Rightarrow> nat \<Rightarrow> timestamp \<Rightarrow> timestamp \<Rightarrow> expense list" where
  "getExpensesByDateRange st userId startDate endDate =
     rev (sort_key e_date
       (rev (filter (\<lambda>expense. e_userId expense = userId \<and> startDate \<le> e_date expense
                               \<and> e_date expense \<le> endDate)
          (map snd (expenses st)))))"

definition createSaving :: "storage \<Rightarrow> insert_saving \<Rightarrow> storage \<times> saving" where
  "createSaving st saving =
     (let i = savingIdCounter st;
          newSaving = \<lparr>s_id = i, s_userId = is_userId saving, s_amount = is_amount saving,
                        s_date = is_date saving, s_source = is_source saving\<rparr>
      in (st\<lparr>savings := AList.update i newSaving (savings st), savingIdCounter := i + 1\<rparr>,
          newSaving))"

definition getGoalById :: "storage \<Rightarrow> nat \<Rightarrow> goal option" where
  "getGoalById st i = map_of (goals st) i"

text \<open>\<^verbatim>\<open>{ ...goal, id, currentAmount: 0, completed: false }\<close>.\<close>

definition createGoal :: "storage \<Rightarrow> insert_goal \<Rightarrow> storage \<times> goal" where
  "createGoal st goal =
     (let i = goalIdCounter st;
          newGoal = \<lparr>g_id = i, g_userId = ig_userId goal, g_name = ig_name goal,
                      targetAmount = ig_targetAmount goal, currentAmount = 0,
                      g_startDate = ig_startDate goal, g_targetDate = ig_targetDate goal,
                      completed = False\<rparr>
      in (st\<lparr>goals := AList.update i newGoal (goals st), goalIdCounter := i + 1\<rparr>, newGoal))"

definition merge_goal :: "goal \<Rightarrow> goal_data \<Rightarrow> goal" where
  "merge_goal goal d =
     goal\<lparr>g_id := spread_key (gd_id d) (g_id goal),
          g_userId := spread_key (gd_userId d) (g_userId goal),
          g_name := spread_key (gd_name d) (g_name goal),
          targetAmount := spread_key (gd_targetAmount d) (targetAmount goal),
          currentAmount := spread_key (gd_currentAmount d) (currentAmount goal),
          g_startDate := spread_key (gd_startDate d) (g_startDate goal),
          g_targetDate := spread_key (gd_targetDate d) (g_targetDate goal),
          completed := spread_key (gd_completed d) (completed goal)\<rparr>"

definition updateGoal :: "storage \<Rightarrow> nat \<Rightarrow> goal_data \<Rightarrow> storage \<times> goal option" where
  "updateGoal st i d =
     (case map_of (goals st) i of
        None \<Rightarrow> (st, None)
      | Some goal \<Rightarrow>
          (let updatedGoal = merge_goal goal d
           in (st\<lparr>goals := AList.update i updatedGoal (goals st)\<rparr>, Some updatedGoal)))"

definition createAchievement :: "storage \<Rightarrow> insert_achievement \<Rightarrow> storage \<times> achievement" where
  "createAchievement st achievement =
     (let i = achievementIdCounter st;
          newAchievement = \<lparr>a_id = i, a_userId = ia_userId achievement,
                             a_type = ia_type achievement, a_name = ia_name achievement,
                             a_description = ia_description achievement,
                             a_date = ia_date achievement,
                             coinsAwarded = nullish (ia_coinsAwarded achievement) 0\<rparr>
      in (st\<lparr>achievements := AList.update i newAchievement (achievements st),
              achievementIdCounter := i + 1\<rparr>, newAchievement))"

section \<open>Reward routes (routes.ts)\<close>

text \<open>
  Every route below runs behind \<^verbatim>\<open>isAuthenticated\<close>; \<open>user\<close> is \<^verbatim>\<open>req.user\<close>, the row that
  passport's \<^verbatim>\<open>deserializeUser\<close> read with \<^verbatim>\<open>getUser\<close> when the request arrived.
  \<^verbatim>\<open>user.coins || 0\<close> is \<open>0\<close> for a falsy count.
\<close>

definition deserializeUser :: "storage \<Rightarrow> nat \<Rightarrow> user option" where
  "deserializeUser st i = getUser st i"

definition or_zero :: "int \<Rightarrow> int" where
  "or_zero n = (if n = 0 then 0 else n)"

text \<open>
  Local time is taken at a constant offset \<open>tz\<close> (milliseconds east of UTC), without
  daylight saving. \<^verbatim>\<open>today.setHours(0, 0, 0, 0)\<close> is the local midnight before \<open>now\<close>,
  and \<^verbatim>\<open>setDate(getDate() + 1)\<close> the one after.
\<close>

definition msPerDay :: int where
  "msPerDay = 24 * 60 * 60 * 1000"

definition startOfDay :: "int \<Rightarrow> timestamp \<Rightarrow> timestamp" where
  "startOfDay tz t = t - (t + tz) mod msPerDay"

text \<open>
  \<^verbatim>\<open>POST /api/expenses\<close>, from line 142 on: \<open>expenseData\<close> is the parsed body, with its
  category and status filled in. The answer carries the coins awarded, if any.
\<close>

definition postExpense :: "storage \<Rightarrow> user \<Rightarrow> insert_expense \<Rightarrow> int \<Rightarrow> timestamp \<Rightarrow> storage \<times> int option" where
  "postExpense st user expenseData tz now =
     (let (st1, newExpense) = createExpense st (expenseData\<lparr>ie_userId := u_id user\<rparr>);
          today = startOfDay tz now;
          tomorrow = today + msPerDay;
          todayExpenses = getExpensesByDateRange st1 (u_id user) today tomorrow
      in if length todayExpenses = 1 then
           (let awarded = 10;
                (st2, updatedUser) = updateUser st1 (u_id user)
                   (no_user_data\<lparr>d_coins := Some (or_zero (coins user) + awarded)\<rparr>)
            in (st2, Some awarded))
         else (st1, None))"

text \<open>\<^verbatim>\<open>POST /api/savings\<close>.\<close>

definition postSaving :: "storage \<Rightarrow> user \<Rightarrow> insert_saving \<Rightarrow> storage \<times> int option" where
  "postSaving st user body =
     (let savingData = body\<lparr>is_userId := u_id user\<rparr>;
          (st1, newSaving) = createSaving st savingData
      in if is_source savingData = ''piggy_bank'' then
           (let (st2, updatedUser) = updateUser st1 (u_id user)
                   (no_user_data\<lparr>d_coins := Some (or_zero (coins user) + 5)\<rparr>)
            in (st2, Some 5))
         else (st1, None))"

text \<open>
  \<^verbatim>\<open>POST /api/goals\<close>: \<^verbatim>\<open>insertGoalSchema.parse\<close> keeps the keys of the schema, which
  omits \<^verbatim>\<open>currentAmount\<close> and \<^verbatim>\<open>completed\<close>.
\<close>

definition insertGoalSchema_parse :: "insert_goal \<Rightarrow> insert_goal" where
  "insertGoalSchema_parse body = body\<lparr>ig_currentAmount := None, ig_completed := None\<rparr>"

definition postGoal :: "storage \<Rightarrow> user \<Rightarrow> insert_goal \<Rightarrow> storage \<times> goal" where
  "postGoal st user body =
     createGoal st (insertGoalSchema_parse (body\<lparr>ig_userId := u_id user\<rparr>))"

text \<open>
  \<^verbatim>\<open>PUT /api/goals/:id\<close>. \<open>None\<close> is the 404 answer; otherwise the updated goal and the
  coins awarded. The body goes to \<^verbatim>\<open>updateGoal\<close> as it came.
\<close>

definition putGoal :: "storage \<Rightarrow> user \<Rightarrow> nat \<Rightarrow> goal_data \<Rightarrow> timestamp \<Rightarrow> storage \<times> (goal option \<times> int) option" where
  "putGoal st user goalId body now =
     (case getGoalById st goalId of
        None \<Rightarrow> (st, None)
      | Some goal \<Rightarrow>
          if g_userId goal \<noteq> u_id user then (st, None)
          else
            (let (st1, awarded) =
                   (if gd_completed body = Some True \<and> \<not> completed goal then
                      (let awarded = 100;
                           (sta, updatedUser) = updateUser st (u_id user)
                              (no_user_data\<lparr>d_coins := Some (or_zero (coins user) + awarded)\<rparr>);
                           (stb, newAchievement) = createAchievement sta
                              \<lparr>ia_userId = u_id user, ia_type = ''goal_met'',
                               ia_name = ''Goal Achieved: '' @ g_name goal,
                               ia_description = ''You've successfully reached your goal of ''
                                  @ g_name goal @ ''!'',
                               ia_date = now, ia_coinsAwarded = Some awarded\<rparr>
                       in (stb, awarded))
                    else (st, 0));
                 (st2, updatedGoal) = updateGoal st1 goalId body
             in (st2, Some (updatedGoal, awarded))))"

text \<open>A whole request: the session's user id is deserialized, then the route runs.\<close>

definition putGoalRequest :: "storage \<Rightarrow> nat \<Rightarrow> nat \<Rightarrow> goal_data \<Rightarrow> timestamp \<Rightarrow> storage \<times> (goal option \<times> int) option" where
  "putGoalRequest st userId goalId body now =
     (case deserializeUser st userId of
        None \<Rightarrow> (st, None)
      | Some user \<Rightarrow> putGoal st user goalId body now)"

definition postSavingRequest :: "storage \<Rightarrow> nat \<Rightarrow> insert_saving \<Rightarrow> storage \<times> int option" where
  "postSavingRequest st userId body =
     (case deserializeUser st userId of
        None \<Rightarrow> (st, None)
      | Some user \<Rightarrow> postSaving st user body)"

section \<open>Goal card (client, GoalCard.tsx)\<close>

text \<open>
  \<^verbatim>\<open>handleAllocationConfirm\<close>: \<open>goal\<close> is the card's copy of the goal; the dialog hands
  over a non-negative amount in paise. The body of the PUT, then the two requests: the PUT
  and, when it succeeds, the negative saving that records the allocation.
\<close>

definition allocationBody :: "goal \<Rightarrow> int \<Rightarrow> goal_data" where
  "allocationBody goal amountInPaise =
     (let newTotal = currentAmount goal + amountInPaise;
          willComplete = (targetAmount goal \<le> newTotal)
      in no_goal_data\<lparr>gd_currentAmount := Some newTotal, gd_completed := Some willComplete\<rparr>)"

definition handleAllocationConfirm :: "storage \<Rightarrow> nat \<Rightarrow> goal \<Rightarrow> int \<Rightarrow> timestamp \<Rightarrow> storage" where
  "handleAllocationConfirm st userId goal amountInPaise now =
     (case putGoalRequest st userId (g_id goal) (allocationBody goal amountInPaise) now of
        (st1, None) \<Rightarrow> st1
      | (st1, Some response) \<Rightarrow>
          fst (postSavingRequest st1 userId
                 \<lparr>is_userId = userId, is_amount = - amountInPaise, is_date = now,
                  is_source = ''goal_allocation''\<rparr>))"

text \<open>\<^verbatim>\<open>handleMarkComplete\<close>: the body of its PUT.\<close>

definition markCompleteBody :: "goal \<Rightarrow> goal_data" where
  "markCompleteBody goal =
     no_goal_data\<lparr>gd_completed := Some True, gd_currentAmount := Some (targetAmount goal)\<rparr>"

text \<open>
  A run of allocations from the goal card: before each one the card holds the goal as the
  server stores it (the card refetches \<^verbatim>\<open>/api/goals\<close> after every allocation).
\<close>

fun allocations :: "storage \<Rightarrow> nat \<Rightarrow> nat \<Rightarrow> (int \<times> timestamp) list \<Rightarrow> storage" where
  "allocations st userId goalId [] = st"
| "allocations st userId goalId ((amountInPaise, now) # rest) =
     (case getGoalById st goalId of
        None \<Rightarrow> st
      | Some goal \<Rightarrow>
          allocations (handleAllocationConfirm st userId goal amountInPaise now) userId goalId rest)"

section \<open>Expense classification (ai.ts)\<close>

definition necessaryCategories :: "string list" where
  "necessaryCategories = [''groceries'', ''utilities'', ''housing'', ''health'',
     ''transportation'', ''bills'', ''education'']"

definition potentiallyAvoidableCategories :: "string list" where
  "potentiallyAvoidableCategories = [''food_and_drinks'', ''personal_care'', ''investment'']"

definition unnecessaryCategories :: "string list" where
  "unnecessaryCategories = [''entertainment'', ''shopping'', ''travel'', ''gifts'']"

text \<open>
  \<^verbatim>\<open>fallbackStatusDetermination\<close>. The amount arrives in paise; \<^verbatim>\<open>amount / 100\<close> is kept
  exact (the thresholds are whole rupees, so rounding the quotient cannot cross them).
\<close>

definition fallbackStatusDetermination :: "string \<Rightarrow> int \<Rightarrow> string" where
  "fallbackStatusDetermination category amount =
     (let amountInRupees = (of_int amount :: rat) / 100
      in if category \<in> set necessaryCategories then
           (if amountInRupees > 5000 then ''avoidable'' else ''necessary'')
         else if category \<in> set potentiallyAvoidableCategories then
           (if amountInRupees > 1000 then ''avoidable'' else ''necessary'')
         else if category \<in> set unnecessaryCategories then
           (if amountInRupees > 2000 then ''unnecessary'' else ''avoidable'')
         else
           (if amountInRupees > 3000 then ''unnecessary'' else ''avoidable''))"

text \<open>
  \<^verbatim>\<open>determineExpenseStatus\<close>: \<open>response\<close> is the model's answer after
  \<^verbatim>\<open>trim().toLowerCase()\<close>, or \<open>None\<close> when the call throws or the message has no content.
\<close>

definition validStatuses :: "string list" where
  "validStatuses = [''necessary'', ''avoidable'', ''unnecessary'']"

definition determineExpenseStatus :: "string option \<Rightarrow> string \<Rightarrow> int \<Rightarrow> string" where
  "determineExpenseStatus response category amount =
     (case response of
        None \<Rightarrow> fallbackStatusDetermination category amount
      | Some status \<Rightarrow>
          if status \<noteq> [] \<and> status \<in> set validStatuses then status
          else fallbackStatusDetermination category amount)"

section \<open>Weekly savings targets (Savings.tsx, expenseUtils)\<close>

text \<open>
  \<^verbatim>\<open>Math.round\<close> rounds to the nearest integer, a tie towards \<open>+\<infinity>\<close>.
\<close>

definition Math_round :: "rat \<Rightarrow> int" where
  "Math_round x = \<lfloor>x + 1 / 2\<rfloor>"

text \<open>\<^verbatim>\<open>reduce((sum, x) => sum + x.amount, 0)\<close>.\<close>

definition reduce_sum :: "('a \<Rightarrow> int) \<Rightarrow> 'a list \<Rightarrow> int" where
  "reduce_sum amount xs = foldl (\<lambda>sum x. sum + amount x) 0 xs"

record savings_recommendation =
  weekly :: int
  avoidableAmount :: int
  unnecessaryAmount :: int

definition calculateSavingsRecommendation :: "expense list \<Rightarrow> savings_recommendation" where
  "calculateSavingsRecommendation allExpenses =
     (let avoidable = filter (\<lambda>expense. e_status expense = ''avoidable'') allExpenses;
          unnecessary = filter (\<lambda>expense. e_status expense = ''unnecessary'') allExpenses;
          avoidableTotal = reduce_sum e_amount avoidable;
          unnecessaryTotal = reduce_sum e_amount unnecessary;
          weeklySavings = Math_round (of_int (avoidableTotal + unnecessaryTotal) * (1 / 2))
      in \<lparr>weekly = weeklySavings, avoidableAmount = avoidableTotal,
          unnecessaryAmount = unnecessaryTotal\<rparr>)"

text \<open>
  The date-fns functions the page calls, in local time at the constant offset \<open>tz\<close>:
  \<^verbatim>\<open>startOfWeek(d, { weekStartsOn: 1 })\<close> is the Monday 00:00:00.000 at or before \<open>d\<close>
  (5 January 1970 was a Monday), \<^verbatim>\<open>endOfWeek\<close> the Sunday 23:59:59.999 that follows, and
  \<^verbatim>\<open>subWeeks(d, n)\<close> the same time of day \<open>7 n\<close> days earlier.
\<close>

definition msPerWeek :: int where
  "msPerWeek = 7 * msPerDay"

definition startOfWeek :: "int \<Rightarrow> timestamp \<Rightarrow> timestamp" where
  "startOfWeek tz d = d - (d + tz - 4 * msPerDay) mod msPerWeek"

definition endOfWeek :: "int \<Rightarrow> timestamp \<Rightarrow> timestamp" where
  "endOfWeek tz d = startOfWeek tz d + msPerWeek - 1"

definition subWeeks :: "timestamp \<Rightarrow> int \<Rightarrow> timestamp" where
  "subWeeks d n = d - n * msPerWeek"

record week_target =
  weekStart :: timestamp
  weekEnd :: timestamp
  target :: int
  actual :: int

text \<open>One pass of the loop body of \<^verbatim>\<open>generateWeeklyTargets\<close>: the record pushed for \<open>i\<close>.\<close>

definition weekEntry :: "int \<Rightarrow> expense list \<Rightarrow> saving list \<Rightarrow> timestamp \<Rightarrow> int \<Rightarrow> week_target" where
  "weekEntry tz allExpenses savingsList now i =
     (let weekEnd = (if i = 0 then now else subWeeks now i);
          weekStart = startOfWeek tz weekEnd;
          weekEndDate = endOfWeek tz weekEnd;
          weekExpenses = filter (\<lambda>expense. weekStart \<le> e_date expense
                                   \<and> e_date expense \<le> weekEndDate) allExpenses;
          avoidableExpenses =
            reduce_sum e_amount (filter (\<lambda>e. e_status e = ''avoidable'') weekExpenses);
          unnecessaryExpenses =
            reduce_sum e_amount (filter (\<lambda>e. e_status e = ''unnecessary'') weekExpenses);
          target = (if i = 0
                    then Math_round (of_int (avoidableExpenses + unnecessaryExpenses) * (1 / 2))
                    else avoidableExpenses + unnecessaryExpenses);
          weekSavings = filter (\<lambda>saving. weekStart \<le> s_date saving
                                  \<and> s_date saving \<le> weekEndDate) savingsList;
          actualSaved = reduce_sum s_amount weekSavings
      in \<lparr>weekStart = weekStart, weekEnd = weekEndDate, target = target,
          actual = actualSaved\<rparr>)"

text \<open>\<^verbatim>\<open>for (let i = 0; i < 6; i++) { ... result.push(...) }\<close>.\<close>

function weeksLoop :: "int \<Rightarrow> expense list \<Rightarrow> saving list \<Rightarrow> timestamp \<Rightarrow> int \<Rightarrow> week_target list \<Rightarrow> week_target list" where
  "weeksLoop tz allExpenses savingsList now i result =
     (if i < 6
      then weeksLoop tz allExpenses savingsList now (i + 1)
             (result @ [weekEntry tz allExpenses savingsList now i])
      else result)"
  by pat_completeness auto
termination
  by (relation "measure (\<lambda>(tz, allExpenses, savingsList, now, i, result). nat (6 - i))") auto

declare weeksLoop.simps [simp del]

text \<open>
  \<^verbatim>\<open>generateWeeklyTargets\<close>: the two query results may still be absent
  (\<^verbatim>\<open>expensesData?.expenses\<close>, \<^verbatim>\<open>savingsData?.savings\<close>).
\<close>

definition generateWeeklyTargets :: "int \<Rightarrow> expense list option \<Rightarrow> saving list option \<Rightarrow> timestamp \<Rightarrow> week_target list" where
  "generateWeeklyTargets tz expensesData savingsData now =
     (case expensesData of
        None \<Rightarrow> []
      | Some allExpenses \<Rightarrow>
          rev (weeksLoop tz allExpenses (case savingsData of None \<Rightarrow> [] | Some s \<Rightarrow> s) now 0 []))"

text \<open>
  The history as the specification words it: the week \<open>i\<close> weeks back runs from its Monday
  to its Sunday; its totals are sums over the entries dated inside it.
\<close>

definition tier_total :: "string \<Rightarrow> timestamp \<Rightarrow> timestamp \<Rightarrow> expense list \<Rightarrow> int" where
  "tier_total tier from until es =
     sum_list (map e_amount
       (filter (\<lambda>e. e_status e = tier \<and> from \<le> e_date e \<and> e_date e \<le> until) es))"

definition saved_total :: "timestamp \<Rightarrow> timestamp \<Rightarrow> saving list \<Rightarrow> int" where
  "saved_total from until ss =
     sum_list (map s_amount (filter (\<lambda>s. from \<le> s_date s \<and> s_date s \<le> until) ss))"

definition week_record :: "int \<Rightarrow> expense list \<Rightarrow> saving list \<Rightarrow> timestamp \<Rightarrow> int \<Rightarrow> week_target" where
  "week_record tz es ss now i =
     (let monday = startOfWeek tz now - i * msPerWeek;
          sunday = monday + msPerWeek - 1;
          cuttable = tier_total ''avoidable'' monday sunday es
                   + tier_total ''unnecessary'' monday sunday es
      in \<lparr>weekStart = monday, weekEnd = sunday,
          target = (if i = 0 then round (0.5 * (of_int cuttable :: rat)) else cuttable),
          actual = saved_total monday sunday ss\<rparr>)"

section \<open>Report aggregation (routes.ts)\<close>

text \<open>
  JavaScript numbers are IEEE 754 doubles. \<open>to_double\<close> rounds an exact value to the
  nearest double, a tie to the even mantissa: the value is scaled by a power of two so that
  it lies between \<open>2 ^ 52\<close> and \<open>2 ^ 53\<close>, rounded to an integer there and scaled back. The
  exponent range is left out (no overflow, no subnormals): the quotients and products
  below are between \<open>2 ^ -63\<close> and \<open>2 ^ 63\<close> in magnitude for integers below \<open>2 ^ 53\<close>.
\<close>

definition pow2 :: "int \<Rightarrow> rat" where
  "pow2 e = (if 0 \<le> e then 2 ^ nat e else 1 / 2 ^ nat (- e))"

definition round_half_even :: "rat \<Rightarrow> int" where
  "round_half_even x =
     (let f = \<lfloor>x\<rfloor>;
          r = x - of_int f
      in if r < 1 / 2 then f
         else if 1 / 2 < r then f + 1
         else if even f then f else f + 1)"

definition to_double :: "rat \<Rightarrow> rat" where
  "to_double x =
     (if x = 0 then 0
      else
        (let (n, d) = quotient_of \<bar>x\<bar>;
             e0 = bitlen n - bitlen d - 53;
             e = (if pow2 53 \<le> \<bar>x\<bar> / pow2 e0 then e0 + 1 else e0);
             m = round_half_even (\<bar>x\<bar> / pow2 e)
         in sgn x * of_int m * pow2 e))"

text \<open>
  The value of a JavaScript division of two integers: a zero divisor gives \<^verbatim>\<open>NaN\<close> or an
  infinity, which \<^verbatim>\<open>* 100\<close> and \<^verbatim>\<open>Math.round\<close> pass through; a finite quotient and its
  product with 100 are each rounded to a double. \<^verbatim>\<open>Math.round\<close> of a double is exact.
\<close>

datatype jsnum = Finite rat | PosInfinity | NegInfinity | NaN

definition js_div :: "int \<Rightarrow> int \<Rightarrow> jsnum" where
  "js_div a b =
     (if b = 0 then (if a = 0 then NaN else if 0 < a then PosInfinity else NegInfinity)
      else Finite (to_double (of_int a / of_int b)))"

fun js_times_100 :: "jsnum \<Rightarrow> jsnum" where
  "js_times_100 (Finite q) = Finite (to_double (q * 100))"
| "js_times_100 PosInfinity = PosInfinity"
| "js_times_100 NegInfinity = NegInfinity"
| "js_times_100 NaN = NaN"

fun js_Math_round :: "jsnum \<Rightarrow> jsnum" where
  "js_Math_round (Finite q) = Finite (of_int (Math_round q))"
| "js_Math_round PosInfinity = PosInfinity"
| "js_Math_round NegInfinity = NegInfinity"
| "js_Math_round NaN = NaN"

text \<open>
  \<^verbatim>\<open>expensesByCategory\<close> and \<^verbatim>\<open>expensesByStatus\<close> are plain objects used as dictionaries.
  One pass of the \<^verbatim>\<open>forEach\<close> body on the own properties, kept in creation order:
\<close>

definition addToGroup :: "(string \<times> int) list \<Rightarrow> string \<Rightarrow> int \<Rightarrow> (string \<times> int) list" where
  "addToGroup groups k amount =
     (let groups1 = (case map_of groups k of
                       None \<Rightarrow> AList.update k 0 groups
                     | Some v \<Rightarrow> if v = 0 then AList.update k 0 groups else groups)
      in case map_of groups1 k of
           None \<Rightarrow> groups1
         | Some v \<Rightarrow> AList.update k (v + amount) groups1)"

text \<open>
  A key that \<^verbatim>\<open>Object.prototype\<close> defines is not absent from a fresh object: the loop reads
  the inherited function, skips the initialisation and stores a string, and the comparator
  of the later sort answers \<^verbatim>\<open>NaN\<close>, which leaves the order to the implementation. For a
  month with such a key the model gives no result (\<open>None\<close>).
\<close>

definition objectPrototypeKeys :: "string list" where
  "objectPrototypeKeys = [''constructor'', ''__defineGetter__'', ''__defineSetter__'',
     ''hasOwnProperty'', ''__lookupGetter__'', ''__lookupSetter__'', ''isPrototypeOf'',
     ''propertyIsEnumerable'', ''toString'', ''valueOf'', ''__proto__'', ''toLocaleString'']"

definition groupBy :: "(expense \<Rightarrow> string) \<Rightarrow> expense list \<Rightarrow> (string \<times> int) list option" where
  "groupBy key monthExpenses =
     (if list_ex (\<lambda>expense. key expense \<in> set objectPrototypeKeys) monthExpenses then None
      else Some (foldl (\<lambda>groups expense. addToGroup groups (key expense) (e_amount expense))
                   [] monthExpenses))"

text \<open>
  \<^verbatim>\<open>Object.entries\<close> lists the keys that are array indices (canonical decimal numerals
  below \<open>2 ^ 32 - 1\<close>) first, in ascending numeric order, then the other keys in creation
  order.
\<close>

definition indexValue :: "string \<Rightarrow> int" where
  "indexValue k = foldl (\<lambda>n c. 10 * n + (of_char c - 48)) 0 k"

definition isArrayIndex :: "string \<Rightarrow> bool" where
  "isArrayIndex k =
     (k \<noteq> [] \<and> list_all (\<lambda>c. c \<in> set ''0123456789'') k
      \<and> (k = ''0'' \<or> hd k \<noteq> CHR ''0'') \<and> indexValue k < 2 ^ 32 - 1)"

definition Object_entries :: "(string \<times> 'a) list \<Rightarrow> (string \<times> 'a) list" where
  "Object_entries props =
     sort_key (\<lambda>(k, v). indexValue k) (filter (\<lambda>(k, v). isArrayIndex k) props)
     @ filter (\<lambda>(k, v). \<not> isArrayIndex k) props"

record breakdown_row =
  b_key :: string
  b_amount :: int
  percentage :: jsnum

text \<open>
  \<^verbatim>\<open>Object.entries(...).map(...).sort((a, b) => b.amount - a.amount)\<close>: the sort is stable
  and descending by amount.
\<close>

definition breakdown :: "(expense \<Rightarrow> string) \<Rightarrow> expense list \<Rightarrow> breakdown_row list option" where
  "breakdown key monthExpenses =
     (let totalExpenses = reduce_sum e_amount monthExpenses
      in case groupBy key monthExpenses of
           None \<Rightarrow> None
         | Some groups \<Rightarrow>
             Some (sort_key (\<lambda>row. - b_amount row)
               (map (\<lambda>(k, amount).
                       \<lparr>b_key = k, b_amount = amount,
                        percentage = js_Math_round (js_times_100 (js_div amount totalExpenses))\<rparr>)
                  (Object_entries groups))))"

definition categoryBreakdown :: "expense list \<Rightarrow> breakdown_row list option" where
  "categoryBreakdown monthExpenses = breakdown e_category monthExpenses"

definition statusBreakdown :: "expense list \<Rightarrow> breakdown_row list option" where
  "statusBreakdown monthExpenses = breakdown e_status monthExpenses"

text \<open>
  The guarded divisions: \<^verbatim>\<open>percentageChange\<close> of the dashboard summary, and
  \<^verbatim>\<open>expenseChange\<close> of the monthly report (rounded when it is reported).
\<close>

definition percentageChange :: "int \<Rightarrow> int \<Rightarrow> jsnum" where
  "percentageChange currentMonthTotal prevMonthTotal =
     (if prevMonthTotal > 0
      then js_Math_round (js_times_100 (js_div (currentMonthTotal - prevMonthTotal) prevMonthTotal))
      else Finite 0)"

definition expenseChange :: "int \<Rightarrow> int \<Rightarrow> jsnum" where
  "expenseChange totalExpenses prevMonthTotal =
     (if prevMonthTotal > 0
      then js_times_100 (js_div (totalExpenses - prevMonthTotal) prevMonthTotal)
      else Finite 0)"

section \<open>Example states\<close>

text \<open>The seeded demo account, last seen at the epoch, in an otherwise empty store.\<close>

definition demoUser :: user where
  "demoUser = \<lparr>u_id = 1, username = ''demo'', password = ''password'', u_name = ''Rahul Kumar'',
     coins = 750, streak = 4, lastLogin = Some 0\<rparr>"

definition emptyStore :: storage where
  "emptyStore = \<lparr>users = [], expenses = [], savings = [], goals = [], achievements = [],
     userIdCounter = 1, expenseIdCounter = 1, savingIdCounter = 1, goalIdCounter = 1,
     achievementIdCounter = 1\<rparr>"

definition demoStore :: storage where
  "demoStore = emptyStore\<lparr>users := [(1, demoUser)], userIdCounter := 2\<rparr>"

text \<open>
  A row whose \<^verbatim>\<open>last_login\<close> column is null, and the demo user one day further into the
  streak.
\<close>

definition legacyUser :: user where
  "legacyUser = \<lparr>u_id = 1, username = ''asha'', password = ''x'', u_name = ''Asha'',
     coins = 40, streak = 7, lastLogin = None\<rparr>"

definition legacyStore :: storage where
  "legacyStore = emptyStore\<lparr>users := [(1, legacyUser)], userIdCounter := 2\<rparr>"

definition sixthDayUser :: user where
  "sixthDayUser = demoUser\<lparr>streak := 5\<rparr>"

definition sixthDayStore :: storage where
  "sixthDayStore = emptyStore\<lparr>users := [(1, sixthDayUser)], userIdCounter := 2\<rparr>"

text \<open>A registration request; the body tries to grant itself coins and a streak.\<close>

definition newcomerBody :: insert_user where
  "newcomerBody = \<lparr>i_username = ''meera'', i_password = ''secret'', i_name = ''Meera'',
     i_coins = Some 9999, i_streak = Some 30, i_lastLogin = None\<rparr>"

text \<open>
  The demo user saves for a bike: the goal as created (the body asks for a head start, in
  vain), and the store after one allocation of the whole target.
\<close>

definition bikeBody :: insert_goal where
  "bikeBody = \<lparr>ig_userId = 99, ig_name = ''Bike'', ig_targetAmount = 50000, ig_startDate = 0,
     ig_targetDate = 1000, ig_currentAmount = Some 7, ig_completed = Some True\<rparr>"

definition bikeGoal :: goal where
  "bikeGoal = \<lparr>g_id = 1, g_userId = 1, g_name = ''Bike'', targetAmount = 50000,
     currentAmount = 0, g_startDate = 0, g_targetDate = 1000, completed = False\<rparr>"

definition bikeStore :: storage where
  "bikeStore = fst (postGoal demoStore demoUser bikeBody)"

definition doneGoal :: goal where
  "doneGoal = bikeGoal\<lparr>currentAmount := 50000, completed := True\<rparr>"

definition doneStore :: storage where
  "doneStore = handleAllocationConfirm bikeStore 1 bikeGoal 50000 6"

text \<open>
  The completed goal reopened by \<^verbatim>\<open>PUT { completed: false }\<close>, and a card that still shows
  the goal as it was created (\<open>bikeGoal\<close>) allocating 1000 paise to the completed goal.
\<close>

definition reopenedStore :: storage where
  "reopenedStore =
     fst (putGoalRequest doneStore 1 1 (no_goal_data\<lparr>gd_completed := Some False\<rparr>) 7)"

definition staleCardStore :: storage where
  "staleCardStore = handleAllocationConfirm doneStore 1 bikeGoal 1000 7"

text \<open>A piggy-bank deposit.\<close>

definition piggyBody :: insert_saving where
  "piggyBody = \<lparr>is_userId = 1, is_amount = 5000, is_date = 80000000,
     is_source = ''piggy_bank''\<rparr>"

text \<open>An expense logged at 25 hours past the epoch; the offset of Indian Standard Time.\<close>

definition teaExpense :: insert_expense where
  "teaExpense = \<lparr>ie_userId = 1, ie_name = ''Tea'', ie_amount = 2000, ie_date = 90000000,
     ie_status = ''avoidable'', ie_category = ''food_and_drinks''\<rparr>"

definition ist :: int where
  "ist = 19800000"

text \<open>
  A current week with 200 rupees of avoidable and 100 rupees of unnecessary spending and
  one deposit, seen on day 1000 after the epoch (a Wednesday) in Indian Standard Time.
\<close>

definition weekExpenses :: "expense list" where
  "weekExpenses =
     [\<lparr>e_id = 1, e_userId = 1, e_name = ''Movie Tickets'', e_amount = 20000,
       e_date = 1000 * msPerDay, e_status = ''avoidable'', e_category = ''entertainment''\<rparr>,
      \<lparr>e_id = 2, e_userId = 1, e_name = ''Gadget'', e_amount = 10000,
       e_date = 1000 * msPerDay + 1, e_status = ''unnecessary'', e_category = ''shopping''\<rparr>,
      \<lparr>e_id = 3, e_userId = 1, e_name = ''Rent'', e_amount = 900000,
       e_date = 1000 * msPerDay + 2, e_status = ''necessary'', e_category = ''housing''\<rparr>,
      \<lparr>e_id = 4, e_userId = 1, e_name = ''Snacks'', e_amount = 777,
       e_date = 990 * msPerDay, e_status = ''avoidable'', e_category = ''food_and_drinks''\<rparr>]"

definition weekSavings :: "saving list" where
  "weekSavings =
     [\<lparr>s_id = 1, s_userId = 1, s_amount = 5000, s_date = 1000 * msPerDay + 3,
       s_source = ''piggy_bank''\<rparr>]"

text \<open>
  A month whose only expense is a free sample, entered with amount 0; and a month in which
  a purchase of 500 paise is cancelled by a refund entered as a negative expense.
\<close>

definition freeSampleMonth :: "expense list" where
  "freeSampleMonth =
     [\<lparr>e_id = 1, e_userId = 1, e_name = ''Free sample'', e_amount = 0, e_date = 1000 * msPerDay,
       e_status = ''necessary'', e_category = ''other''\<rparr>]"

definition refundMonth :: "expense list" where
  "refundMonth =
     [\<lparr>e_id = 1, e_userId = 1, e_name = ''Coffee'', e_amount = 500, e_date = 1000 * msPerDay,
       e_status = ''avoidable'', e_category = ''food_and_drinks''\<rparr>,
      \<lparr>e_id = 2, e_userId = 1, e_name = ''Coffee refund'', e_amount = - 500,
       e_date = 1000 * msPerDay + 1, e_status = ''necessary'', e_category = ''other''\<rparr>]"


section \<open>Storage lemmas\<close>

lemma getUser_updateUser:
  assumes "getUser st i = Some u"
  shows "updateUser st i d =
    (st\<lparr>users := AList.update i (merge_user u d) (users st)\<rparr>, Some (merge_user u d))"
  using assms by (simp add: updateUser_def getUser_def Let_def)

lemma getUser_users_update:
  "getUser (st\<lparr>users := AList.update i v (users st)\<rparr>) j = (if j = i then Some v else getUser st j)"
  by (simp add: getUser_def update_conv')

lemma demoStore_byUsername: "getUserByUsername demoStore ''demo'' = Some demoUser"
  by (simp add: demoStore_def emptyStore_def demoUser_def getUserByUsername_def)

lemma demoStore_getUser: "getUser demoStore (u_id demoUser) = Some demoUser"
  by (simp add: demoStore_def emptyStore_def demoUser_def getUser_def)

lemma legacyStore_byUsername: "getUserByUsername legacyStore ''asha'' = Some legacyUser"
  by (simp add: legacyStore_def emptyStore_def legacyUser_def getUserByUsername_def)

lemma legacyStore_getUser: "getUser legacyStore (u_id legacyUser) = Some legacyUser"
  by (simp add: legacyStore_def emptyStore_def legacyUser_def getUser_def)

lemma find_update_fresh:
  "find P (map snd al) = None \<Longrightarrow> P v \<Longrightarrow> find P (map snd (AList.update k v al)) = Some v"
  by (induction al) (auto split: if_splits)


section \<open>The streak and login-reward engine\<close>

subsection \<open>The thresholds in milliseconds\<close>

lemma hours_gt_20: "hoursSinceLastLogin now t > 20 \<longleftrightarrow> now - t > 72000000"
proof -
  have "hoursSinceLastLogin now t > 20 \<longleftrightarrow> (of_int (now - t) :: rat) > 20 * 3600000"
    unfolding hoursSinceLastLogin_def by (simp add: pos_less_divide_eq)
  also have "\<dots> \<longleftrightarrow> (of_int (now - t) :: rat) > of_int 72000000" by simp
  also have "\<dots> \<longleftrightarrow> now - t > 72000000" by (simp only: of_int_less_iff)
  finally show ?thesis .
qed

lemma hours_lt_48: "hoursSinceLastLogin now t < 48 \<longleftrightarrow> now - t < 172800000"
proof -
  have "hoursSinceLastLogin now t < 48 \<longleftrightarrow> (of_int (now - t) :: rat) < 48 * 3600000"
    unfolding hoursSinceLastLogin_def by (simp add: pos_divide_less_eq)
  also have "\<dots> \<longleftrightarrow> (of_int (now - t) :: rat) < of_int 172800000" by simp
  also have "\<dots> \<longleftrightarrow> now - t < 172800000" by (simp only: of_int_less_iff)
  finally show ?thesis .
qed

lemma hours_ge_48: "48 \<le> hoursSinceLastLogin now t \<longleftrightarrow> 172800000 \<le> now - t"
  using hours_lt_48 [of now t] by linarith

lemma hours_le_20: "hoursSinceLastLogin now t \<le> 20 \<longleftrightarrow> now - t \<le> 72000000"
  using hours_gt_20 [of now t] by linarith

lemma js_rem_5_zero: "js_rem n 5 = 0 \<longleftrightarrow> 5 dvd n"
proof -
  have "js_rem n 5 = 0 \<longleftrightarrow> \<bar>n\<bar> mod 5 = 0"
    by (auto simp: js_rem_def sgn_if)
  also have "\<dots> \<longleftrightarrow> 5 dvd n" by presburger
  finally show ?thesis .
qed

subsection \<open>The three branches\<close>

lemma loginStreak_guard:
  "\<not> hoursSinceLastLogin now (case lastLogin user of None \<Rightarrow> 0 | Some t \<Rightarrow> t) > 20 \<Longrightarrow>
   loginStreak user now = (streak user, 0)"
  by (simp add: loginStreak_def Let_def)

lemma loginStreak_reset:
  "\<not> hoursSinceLastLogin now (case lastLogin user of None \<Rightarrow> 0 | Some t \<Rightarrow> t) < 48 \<Longrightarrow>
   loginStreak user now = (1, 15)"
  by (auto simp add: loginStreak_def Let_def hours_gt_20 hours_lt_48)

lemma loginStreak_increment:
  "hoursSinceLastLogin now (case lastLogin user of None \<Rightarrow> 0 | Some t \<Rightarrow> t) > 20 \<Longrightarrow>
   hoursSinceLastLogin now (case lastLogin user of None \<Rightarrow> 0 | Some t \<Rightarrow> t) < 48 \<Longrightarrow>
   loginStreak user now = (streak user + 1, if 5 dvd (streak user + 1) then 35 else 15)"
  by (auto simp add: loginStreak_def Let_def js_rem_5_zero)

text \<open>
  What a successful login writes, for a user whose row is stored under its own id: the
  three columns are overwritten with values computed from the row that was read.
\<close>

lemma login_stored:
  assumes "getUserByUsername st uname = Some user" and "getUser st (u_id user) = Some user"
  shows "login st uname True now =
     (st\<lparr>users := AList.update (u_id user)
          (user\<lparr>coins := coins user + snd (loginStreak user now),
                streak := fst (loginStreak user now), lastLogin := Some now\<rparr>) (users st)\<rparr>,
      Some \<lparr>r_user = user\<lparr>coins := coins user + snd (loginStreak user now),
                streak := fst (loginStreak user now), lastLogin := Some now\<rparr>,
            r_coinsAwarded = (if snd (loginStreak user now) > 0
                              then Some (snd (loginStreak user now)) else None)\<rparr>)"
  using assms
  by (simp add: login_def loginHandler_def getUser_updateUser split_beta Let_def
      merge_user_def no_user_data_def spread_key_def)

subsection \<open>The guard band\<close>

text \<open>
  C1, as the claim states it, fails: the handler writes \<^verbatim>\<open>lastLogin: now\<close> on every
  successful login, outside the \<^verbatim>\<open>if (hoursSinceLastLogin > 20)\<close> block. The demo user,
  last seen at the epoch, logs in ten hours later: the stored \<open>lastLogin\<close> moves from
  \<open>0\<close> to \<open>36000000\<close>.
\<close>

theorem login_guard_band_moves_lastLogin:
  "hoursSinceLastLogin 36000000 0 \<le> 20
   \<and> map_option lastLogin (getUser demoStore 1) = Some (Some 0)
   \<and> map_option lastLogin (getUser (fst (login demoStore ''demo'' True 36000000)) 1)
       = Some (Some 36000000)"
  by code_simp

text \<open>
  C1, amended: for every successful login at most 20 hours after the persisted
  \<open>lastLogin\<close>, the stored streak and coins are unchanged and no coins are reported,
  while \<open>lastLogin\<close> is set to the time of this login. The stored row afterwards is the
  row before with only \<open>lastLogin\<close> replaced.
\<close>

theorem login_guard_band_keeps_streak_and_coins:
  assumes "getUserByUsername st uname = Some user"
    and "getUser st (u_id user) = Some user"
    and "lastLogin user = Some t"
    and "hoursSinceLastLogin now t \<le> 20"
  shows "getUser (fst (login st uname True now)) (u_id user)
           = Some (user\<lparr>lastLogin := Some now\<rparr>)
       \<and> map_option r_coinsAwarded (snd (login st uname True now)) = Some None"
proof -
  have "loginStreak user now = (streak user, 0)"
    using assms(3,4) by (intro loginStreak_guard) simp
  then show ?thesis
    by (simp add: login_stored [OF assms(1,2)] getUser_users_update)
qed

theorem login_guard_band_keeps_streak_and_coins_witness:
  "getUser (fst (login demoStore ''demo'' True 36000000)) (u_id demoUser)
     = Some (demoUser\<lparr>lastLogin := Some 36000000\<rparr>)
   \<and> map_option r_coinsAwarded (snd (login demoStore ''demo'' True 36000000)) = Some None"
proof -
  have h3: "lastLogin demoUser = Some 0" by (simp add: demoUser_def)
  have h4: "hoursSinceLastLogin 36000000 0 \<le> 20" by (simp add: hoursSinceLastLogin_def)
  show ?thesis
    using login_guard_band_keeps_streak_and_coins
      [OF demoStore_byUsername demoStore_getUser h3 h4] .
qed

subsection \<open>Reset and increment\<close>

text \<open>
  C2: for every successful login, if \<open>lastLogin\<close> is absent or at least 48 hours in the past
  then the streak is set to 1 and exactly 15 coins are awarded; if the gap is strictly between
  20 and 48 hours then the streak is incremented by 1 and the award is the 15 base coins
  (plus the 20 of a milestone, and nothing else); in both branches \<open>lastLogin\<close> is set to
  \<open>now\<close> and the stored coins grow by exactly the awarded amount. An absent \<open>lastLogin\<close>
  is read as the epoch, so that case is stated for a clock at least 48 hours past the epoch.
\<close>

theorem login_reset_and_increment:
  assumes "getUserByUsername st uname = Some user"
    and "getUser st (u_id user) = Some user"
  shows "(lastLogin user = None \<and> 172800000 \<le> now
            \<or> (\<exists>t. lastLogin user = Some t \<and> 48 \<le> hoursSinceLastLogin now t)
          \<longrightarrow> getUser (fst (login st uname True now)) (u_id user)
                = Some (user\<lparr>coins := coins user + 15, streak := 1, lastLogin := Some now\<rparr>)
              \<and> map_option r_coinsAwarded (snd (login st uname True now)) = Some (Some 15))
       \<and> ((\<exists>t. lastLogin user = Some t \<and> 20 < hoursSinceLastLogin now t
                  \<and> hoursSinceLastLogin now t < 48)
          \<longrightarrow> (snd (loginStreak user now) = 15 \<or> snd (loginStreak user now) = 15 + 20)
              \<and> getUser (fst (login st uname True now)) (u_id user)
                  = Some (user\<lparr>coins := coins user + snd (loginStreak user now),
                                streak := streak user + 1, lastLogin := Some now\<rparr>)
              \<and> map_option r_coinsAwarded (snd (login st uname True now))
                  = Some (Some (snd (loginStreak user now))))"
proof (intro conjI impI)
  assume a: "lastLogin user = None \<and> 172800000 \<le> now
            \<or> (\<exists>t. lastLogin user = Some t \<and> 48 \<le> hoursSinceLastLogin now t)"
  have "\<not> hoursSinceLastLogin now (case lastLogin user of None \<Rightarrow> 0 | Some t \<Rightarrow> t) < 48"
    using a by (auto simp: hours_lt_48 hours_ge_48)
  then have "loginStreak user now = (1, 15)" by (rule loginStreak_reset)
  then show "getUser (fst (login st uname True now)) (u_id user)
                = Some (user\<lparr>coins := coins user + 15, streak := 1, lastLogin := Some now\<rparr>)"
    and "map_option r_coinsAwarded (snd (login st uname True now)) = Some (Some 15)"
    by (simp_all add: login_stored [OF assms] getUser_users_update)
next
  assume "\<exists>t. lastLogin user = Some t \<and> 20 < hoursSinceLastLogin now t
                  \<and> hoursSinceLastLogin now t < 48"
  then have s: "loginStreak user now = (streak user + 1, if 5 dvd (streak user + 1) then 35 else 15)"
    by (intro loginStreak_increment) auto
  show "snd (loginStreak user now) = 15 \<or> snd (loginStreak user now) = 15 + 20"
    using s by simp
  show "getUser (fst (login st uname True now)) (u_id user)
                  = Some (user\<lparr>coins := coins user + snd (loginStreak user now),
                                streak := streak user + 1, lastLogin := Some now\<rparr>)"
    using s by (simp add: login_stored [OF assms] getUser_users_update)
  show "map_option r_coinsAwarded (snd (login st uname True now))
                  = Some (Some (snd (loginStreak user now)))"
    using s by (simp add: login_stored [OF assms])
qed

theorem login_reset_and_increment_witness:
  "getUser (fst (login legacyStore ''asha'' True 1700000000000)) (u_id legacyUser)
     = Some (legacyUser\<lparr>coins := coins legacyUser + 15, streak := 1,
                         lastLogin := Some 1700000000000\<rparr>)
   \<and> map_option r_coinsAwarded (snd (login legacyStore ''asha'' True 1700000000000))
       = Some (Some 15)
   \<and> getUser (fst (login demoStore ''demo'' True 176400000)) (u_id demoUser)
       = Some (demoUser\<lparr>coins := coins demoUser + 15, streak := 1,
                         lastLogin := Some 176400000\<rparr>)
   \<and> map_option r_coinsAwarded (snd (login demoStore ''demo'' True 176400000)) = Some (Some 15)
   \<and> getUser (fst (login demoStore ''demo'' True 90000000)) (u_id demoUser)
       = Some (demoUser\<lparr>coins := coins demoUser + snd (loginStreak demoUser 90000000),
                         streak := streak demoUser + 1, lastLogin := Some 90000000\<rparr>)
   \<and> map_option r_coinsAwarded (snd (login demoStore ''demo'' True 90000000))
       = Some (Some (snd (loginStreak demoUser 90000000)))"
proof -
  have absent: "lastLogin legacyUser = None \<and> 172800000 \<le> (1700000000000::int)
      \<or> (\<exists>t. lastLogin legacyUser = Some t \<and> 48 \<le> hoursSinceLastLogin 1700000000000 t)"
    by (simp add: legacyUser_def)
  have old: "lastLogin demoUser = None \<and> 172800000 \<le> (176400000::int)
      \<or> (\<exists>t. lastLogin demoUser = Some t \<and> 48 \<le> hoursSinceLastLogin 176400000 t)"
    by (simp add: demoUser_def hoursSinceLastLogin_def)
  have next_day: "\<exists>t. lastLogin demoUser = Some t \<and> 20 < hoursSinceLastLogin 90000000 t
      \<and> hoursSinceLastLogin 90000000 t < 48"
    by (simp add: demoUser_def hoursSinceLastLogin_def)
  show ?thesis
    using login_reset_and_increment [OF legacyStore_byUsername legacyStore_getUser, of 1700000000000]
      login_reset_and_increment [OF demoStore_byUsername demoStore_getUser, of 176400000]
      login_reset_and_increment [OF demoStore_byUsername demoStore_getUser, of 90000000]
      absent old next_day
    by blast
qed

subsection \<open>The milestone bonus\<close>

text \<open>
  C3: in the increment branch, a new streak that is 5 or a positive multiple of 5 earns
  35 coins in that one login; a new streak that is not a multiple of 5 earns exactly 15;
  the reset branch earns 15, never the bonus. The amounts are those computed, those added
  to the stored coins and those reported in the response.
\<close>

theorem login_milestone_bonus:
  assumes "getUserByUsername st uname = Some user"
    and "getUser st (u_id user) = Some user"
    and "lastLogin user = Some t"
  shows "(20 < hoursSinceLastLogin now t \<and> hoursSinceLastLogin now t < 48
            \<and> (streak user + 1 = 5 \<or> 0 < streak user + 1 \<and> 5 dvd streak user + 1)
          \<longrightarrow> snd (loginStreak user now) = 35
              \<and> map_option coins (getUser (fst (login st uname True now)) (u_id user))
                  = Some (coins user + 35)
              \<and> map_option r_coinsAwarded (snd (login st uname True now)) = Some (Some 35))
       \<and> (20 < hoursSinceLastLogin now t \<and> hoursSinceLastLogin now t < 48
            \<and> \<not> 5 dvd streak user + 1
          \<longrightarrow> snd (loginStreak user now) = 15
              \<and> map_option coins (getUser (fst (login st uname True now)) (u_id user))
                  = Some (coins user + 15)
              \<and> map_option r_coinsAwarded (snd (login st uname True now)) = Some (Some 15))
       \<and> (48 \<le> hoursSinceLastLogin now t
          \<longrightarrow> snd (loginStreak user now) = 15
              \<and> map_option coins (getUser (fst (login st uname True now)) (u_id user))
                  = Some (coins user + 15)
              \<and> map_option r_coinsAwarded (snd (login st uname True now)) = Some (Some 15))"
proof (intro conjI impI)
  assume a: "20 < hoursSinceLastLogin now t \<and> hoursSinceLastLogin now t < 48
            \<and> (streak user + 1 = 5 \<or> 0 < streak user + 1 \<and> 5 dvd streak user + 1)"
  then have d: "5 dvd streak user + 1" by auto
  have "loginStreak user now = (streak user + 1, if 5 dvd (streak user + 1) then 35 else 15)"
    using a assms(3) by (intro loginStreak_increment) auto
  with d have s: "loginStreak user now = (streak user + 1, 35)" by simp
  show "snd (loginStreak user now) = 35" using s by simp
  show "map_option coins (getUser (fst (login st uname True now)) (u_id user)) = Some (coins user + 35)"
    using s by (simp add: login_stored [OF assms(1,2)] getUser_users_update)
  show "map_option r_coinsAwarded (snd (login st uname True now)) = Some (Some 35)"
    using s by (simp add: login_stored [OF assms(1,2)])
next
  assume a: "20 < hoursSinceLastLogin now t \<and> hoursSinceLastLogin now t < 48
            \<and> \<not> 5 dvd streak user + 1"
  have "loginStreak user now = (streak user + 1, if 5 dvd (streak user + 1) then 35 else 15)"
    using a assms(3) by (intro loginStreak_increment) auto
  with a have s: "loginStreak user now = (streak user + 1, 15)" by simp
  show "snd (loginStreak user now) = 15" using s by simp
  show "map_option coins (getUser (fst (login st uname True now)) (u_id user)) = Some (coins user + 15)"
    using s by (simp add: login_stored [OF assms(1,2)] getUser_users_update)
  show "map_option r_coinsAwarded (snd (login st uname True now)) = Some (Some 15)"
    using s by (simp add: login_stored [OF assms(1,2)])
next
  assume a: "48 \<le> hoursSinceLastLogin now t"
  have s: "loginStreak user now = (1, 15)"
    using a assms(3) by (intro loginStreak_reset) (auto simp: hours_lt_48 hours_ge_48)
  show "snd (loginStreak user now) = 15" using s by simp
  show "map_option coins (getUser (fst (login st uname True now)) (u_id user)) = Some (coins user + 15)"
    using s by (simp add: login_stored [OF assms(1,2)] getUser_users_update)
  show "map_option r_coinsAwarded (snd (login st uname True now)) = Some (Some 15)"
    using s by (simp add: login_stored [OF assms(1,2)])
qed

theorem login_milestone_bonus_witness:
  "snd (loginStreak demoUser 90000000) = 35
   \<and> map_option coins (getUser (fst (login demoStore ''demo'' True 90000000)) (u_id demoUser))
       = Some (coins demoUser + 35)
   \<and> map_option r_coinsAwarded (snd (login demoStore ''demo'' True 90000000)) = Some (Some 35)
   \<and> snd (loginStreak sixthDayUser 90000000) = 15
   \<and> map_option coins
        (getUser (fst (login sixthDayStore ''demo'' True 90000000)) (u_id sixthDayUser))
       = Some (coins sixthDayUser + 15)
   \<and> map_option r_coinsAwarded (snd (login sixthDayStore ''demo'' True 90000000))
       = Some (Some 15)
   \<and> snd (loginStreak demoUser 176400000) = 15
   \<and> map_option coins (getUser (fst (login demoStore ''demo'' True 176400000)) (u_id demoUser))
       = Some (coins demoUser + 15)
   \<and> map_option r_coinsAwarded (snd (login demoStore ''demo'' True 176400000)) = Some (Some 15)"
proof -
  have t: "lastLogin demoUser = Some 0" by (simp add: demoUser_def)
  have t6: "lastLogin sixthDayUser = Some 0" by (simp add: sixthDayUser_def demoUser_def)
  have u6: "getUserByUsername sixthDayStore ''demo'' = Some sixthDayUser"
    by (simp add: sixthDayStore_def emptyStore_def sixthDayUser_def demoUser_def
        getUserByUsername_def)
  have g6: "getUser sixthDayStore (u_id sixthDayUser) = Some sixthDayUser"
    by (simp add: sixthDayStore_def emptyStore_def sixthDayUser_def demoUser_def getUser_def)
  have fifth: "20 < hoursSinceLastLogin 90000000 0 \<and> hoursSinceLastLogin 90000000 0 < 48
      \<and> (streak demoUser + 1 = 5 \<or> 0 < streak demoUser + 1 \<and> 5 dvd streak demoUser + 1)"
    by (simp add: demoUser_def hoursSinceLastLogin_def)
  have sixth: "20 < hoursSinceLastLogin 90000000 0 \<and> hoursSinceLastLogin 90000000 0 < 48
      \<and> \<not> 5 dvd streak sixthDayUser + 1"
    by (simp add: sixthDayUser_def demoUser_def hoursSinceLastLogin_def)
  have late: "48 \<le> hoursSinceLastLogin 176400000 0"
    by (simp add: hoursSinceLastLogin_def)
  show ?thesis
    using login_milestone_bonus [OF demoStore_byUsername demoStore_getUser t, of 90000000]
      login_milestone_bonus [OF u6 g6 t6, of 90000000]
      login_milestone_bonus [OF demoStore_byUsername demoStore_getUser t, of 176400000]
      fifth sixth late
    by blast
qed

subsection \<open>Registration and the first login\<close>

lemma register_fresh:
  assumes "getUserByUsername st (i_username body) = None"
  shows "register st body hp t0 =
    (st\<lparr>users := AList.update (userIdCounter st)
          \<lparr>u_id = userIdCounter st, username = i_username body, password = hp,
            u_name = i_name body, coins = 0, streak = 0, lastLogin = Some t0\<rparr> (users st),
        userIdCounter := userIdCounter st + 1\<rparr>,
     Some \<lparr>u_id = userIdCounter st, username = i_username body, password = hp,
            u_name = i_name body, coins = 0, streak = 0, lastLogin = Some t0\<rparr>)"
  using assms by (simp add: register_def createUser_def Let_def nullish_def)

text \<open>
  C10: registering a free username creates the user with 0 coins, streak 0 and
  \<open>lastLogin\<close> equal to the registration time, whatever the body asked for; a first login
  within 20 hours of that time awards nothing and leaves the streak (and the coins) at 0;
  and a login awards coins only when \<open>lastLogin\<close> is absent or more than 20 hours old.
\<close>

theorem register_then_early_login:
  assumes "getUserByUsername st (i_username body) = None"
  shows "\<exists>st1 u. register st body hp t0 = (st1, Some u)
           \<and> coins u = 0 \<and> streak u = 0 \<and> lastLogin u = Some t0
           \<and> getUser st1 (u_id u) = Some u
           \<and> (hoursSinceLastLogin now t0 \<le> 20 \<longrightarrow>
                map_option r_coinsAwarded (snd (login st1 (i_username body) True now)) = Some None
              \<and> map_option streak (getUser (fst (login st1 (i_username body) True now)) (u_id u))
                  = Some 0
              \<and> map_option coins (getUser (fst (login st1 (i_username body) True now)) (u_id u))
                  = Some 0)
           \<and> (0 < snd (loginStreak user' now') \<longrightarrow>
                lastLogin user' = None
                \<or> (\<exists>t. lastLogin user' = Some t \<and> 20 < hoursSinceLastLogin now' t))"
proof -
  define u where "u = \<lparr>u_id = userIdCounter st, username = i_username body, password = hp,
            u_name = i_name body, coins = 0, streak = 0, lastLogin = Some t0\<rparr>"
  define st1 where "st1 = st\<lparr>users := AList.update (userIdCounter st) u (users st),
        userIdCounter := userIdCounter st + 1\<rparr>"
  have r: "register st body hp t0 = (st1, Some u)"
    unfolding st1_def u_def by (rule register_fresh [OF assms])
  have g: "getUser st1 (u_id u) = Some u"
    by (simp add: st1_def u_def getUser_def update_conv')
  have n: "getUserByUsername st1 (i_username body) = Some u"
    using assms unfolding getUserByUsername_def st1_def
    by (simp add: find_update_fresh u_def)
  have f: "coins u = 0" "streak u = 0" "lastLogin u = Some t0" by (simp_all add: u_def)
  have early: "hoursSinceLastLogin now t0 \<le> 20 \<longrightarrow>
                map_option r_coinsAwarded (snd (login st1 (i_username body) True now)) = Some None
              \<and> map_option streak (getUser (fst (login st1 (i_username body) True now)) (u_id u))
                  = Some 0
              \<and> map_option coins (getUser (fst (login st1 (i_username body) True now)) (u_id u))
                  = Some 0"
  proof
    assume "hoursSinceLastLogin now t0 \<le> 20"
    then have "loginStreak u now = (streak u, 0)"
      using f(3) by (intro loginStreak_guard) simp
    then show "map_option r_coinsAwarded (snd (login st1 (i_username body) True now)) = Some None
              \<and> map_option streak (getUser (fst (login st1 (i_username body) True now)) (u_id u))
                  = Some 0
              \<and> map_option coins (getUser (fst (login st1 (i_username body) True now)) (u_id u))
                  = Some 0"
      using f by (simp add: login_stored [OF n g] getUser_users_update)
  qed
  have only: "0 < snd (loginStreak user' now') \<longrightarrow>
                lastLogin user' = None
                \<or> (\<exists>t. lastLogin user' = Some t \<and> 20 < hoursSinceLastLogin now' t)"
    by (cases "lastLogin user'") (auto simp: loginStreak_def Let_def split: if_splits)
  show ?thesis using r g f early only by blast
qed


theorem register_then_early_login_witness:
  "\<exists>st1 u. register emptyStore newcomerBody ''hash.salt'' 0 = (st1, Some u)
     \<and> coins u = 0 \<and> streak u = 0 \<and> lastLogin u = Some 0
     \<and> getUser st1 (u_id u) = Some u
     \<and> map_option r_coinsAwarded (snd (login st1 (i_username newcomerBody) True 36000000))
         = Some None
     \<and> map_option streak
          (getUser (fst (login st1 (i_username newcomerBody) True 36000000)) (u_id u)) = Some 0
     \<and> map_option coins
          (getUser (fst (login st1 (i_username newcomerBody) True 36000000)) (u_id u)) = Some 0
     \<and> lastLogin legacyUser = None"
proof -
  have free: "getUserByUsername emptyStore (i_username newcomerBody) = None"
    by (simp add: getUserByUsername_def emptyStore_def)
  have early: "hoursSinceLastLogin 36000000 0 \<le> 20"
    by (simp add: hoursSinceLastLogin_def)
  have paid: "0 < snd (loginStreak legacyUser 1700000000000)"
    by (simp add: loginStreak_def legacyUser_def hoursSinceLastLogin_def)
  have absent: "lastLogin legacyUser = None" by (simp add: legacyUser_def)
  show ?thesis
    using register_then_early_login [OF free, of "''hash.salt''" 0 36000000 legacyUser 1700000000000]
      early paid absent
    by blast
qed

section \<open>Goal completion\<close>

lemma update_fresh_append:
  "k \<notin> fst ` set al \<Longrightarrow> AList.update k v al = al @ [(k, v)]"
  by (induction al) auto

lemma or_zero_id: "or_zero n = n"
  by (simp add: or_zero_def)

lemma putGoal_award:
  assumes "getGoalById st gid = Some goal" and "g_userId goal = u_id user"
    and "getUser st (u_id user) = Some stored"
    and "gd_completed body = Some True" and "\<not> completed goal"
  shows "putGoal st user gid body now =
    (st\<lparr>users := AList.update (u_id user) (stored\<lparr>coins := coins user + 100\<rparr>) (users st),
        goals := AList.update gid (merge_goal goal body) (goals st),
        achievements := AList.update (achievementIdCounter st)
           \<lparr>a_id = achievementIdCounter st, a_userId = u_id user, a_type = ''goal_met'',
            a_name = ''Goal Achieved: '' @ g_name goal,
            a_description = ''You've successfully reached your goal of '' @ g_name goal @ ''!'',
            a_date = now, coinsAwarded = 100\<rparr> (achievements st),
        achievementIdCounter := achievementIdCounter st + 1\<rparr>,
     Some (Some (merge_goal goal body), 100))"
  using assms
  by (simp add: putGoal_def getUser_updateUser [OF assms(3)] createAchievement_def updateGoal_def
      getGoalById_def Let_def merge_user_def no_user_data_def spread_key_def nullish_def or_zero_id)

lemma putGoal_no_award:
  assumes "getGoalById st gid = Some goal" and "g_userId goal = u_id user"
    and "gd_completed body \<noteq> Some True \<or> completed goal"
  shows "putGoal st user gid body now =
    (st\<lparr>goals := AList.update gid (merge_goal goal body) (goals st)\<rparr>,
     Some (Some (merge_goal goal body), 0))"
  using assms
  by (auto simp add: putGoal_def updateGoal_def getGoalById_def Let_def)

lemma postSaving_other_source:
  "is_source body \<noteq> ''piggy_bank'' \<Longrightarrow>
   users (fst (postSaving st user body)) = users st
   \<and> goals (fst (postSaving st user body)) = goals st
   \<and> achievements (fst (postSaving st user body)) = achievements st
   \<and> achievementIdCounter (fst (postSaving st user body)) = achievementIdCounter st"
  by (simp add: postSaving_def createSaving_def Let_def)

lemma allocationBody_simps:
  "gd_completed (allocationBody goal a) = Some (targetAmount goal \<le> currentAmount goal + a)"
  "merge_goal g (allocationBody goal a) =
     g\<lparr>currentAmount := currentAmount goal + a,
       completed := targetAmount goal \<le> currentAmount goal + a\<rparr>"
  by (simp_all add: allocationBody_def Let_def no_goal_data_def merge_goal_def spread_key_def)

lemma allocation_requests:
  assumes "deserializeUser st uid = Some user" and "u_id user = uid"
    and "getGoalById st (g_id goal) = Some goal" and "g_userId goal = uid"
  shows "handleAllocationConfirm st uid goal a now =
     fst (postSavingRequest (fst (putGoal st user (g_id goal) (allocationBody goal a) now)) uid
       \<lparr>is_userId = uid, is_amount = - a, is_date = now, is_source = ''goal_allocation''\<rparr>)"
proof (cases "gd_completed (allocationBody goal a) = Some True \<and> \<not> completed goal")
  case True
  have g: "getUser st (u_id user) = Some user"
    using assms(1,2) by (simp add: deserializeUser_def)
  show ?thesis
    using assms True
    by (simp add: handleAllocationConfirm_def putGoalRequest_def putGoal_award [OF assms(3) _ g])
next
  case False
  then have "gd_completed (allocationBody goal a) \<noteq> Some True \<or> completed goal" by simp
  then show ?thesis
    using assms
    by (simp add: handleAllocationConfirm_def putGoalRequest_def putGoal_no_award [OF assms(3)])
qed

lemma postSavingRequest_other_source:
  "is_source body \<noteq> ''piggy_bank'' \<Longrightarrow>
   users (fst (postSavingRequest st uid body)) = users st
   \<and> goals (fst (postSavingRequest st uid body)) = goals st
   \<and> achievements (fst (postSavingRequest st uid body)) = achievements st
   \<and> achievementIdCounter (fst (postSavingRequest st uid body)) = achievementIdCounter st"
  by (simp add: postSavingRequest_def postSaving_other_source split: option.splits)

lemma putGoal_completed:
  assumes "getGoalById st gid = Some goal" and "completed goal"
  shows "users (fst (putGoal st user gid body now)) = users st
       \<and> achievements (fst (putGoal st user gid body now)) = achievements st"
proof (cases "g_userId goal = u_id user")
  case True
  show ?thesis
    by (simp add: putGoal_no_award [OF assms(1) True] assms(2))
next
  case False
  then show ?thesis using assms(1) by (simp add: putGoal_def)
qed

lemma putGoalRequest_completed:
  assumes "getGoalById st gid = Some goal" and "completed goal"
  shows "users (fst (putGoalRequest st uid gid body now)) = users st
       \<and> achievements (fst (putGoalRequest st uid gid body now)) = achievements st"
  using putGoal_completed [OF assms]
  by (simp add: putGoalRequest_def split: option.splits)

lemma handleAllocationConfirm_completed:
  assumes "getGoalById st (g_id goal2) = Some goal" and "completed goal"
  shows "users (handleAllocationConfirm st uid goal2 a now) = users st
       \<and> achievements (handleAllocationConfirm st uid goal2 a now) = achievements st"
proof -
  obtain st1 r where p: "putGoalRequest st uid (g_id goal2) (allocationBody goal2 a) now = (st1, r)"
    by (cases "putGoalRequest st uid (g_id goal2) (allocationBody goal2 a) now")
  have k: "users st1 = users st \<and> achievements st1 = achievements st"
    using putGoalRequest_completed [OF assms, of uid "allocationBody goal2 a" now] p by simp
  show ?thesis
    using k p
    by (cases r) (simp_all add: handleAllocationConfirm_def postSavingRequest_other_source)
qed

lemma bikeStore_eval:
  "deserializeUser bikeStore 1 = Some demoUser"
  "getGoalById bikeStore (g_id bikeGoal) = Some bikeGoal"
  "achievementIdCounter bikeStore \<notin> fst ` set (achievements bikeStore)"
  by (simp_all add: bikeStore_def postGoal_def createGoal_def insertGoalSchema_parse_def
      bikeBody_def bikeGoal_def demoStore_def emptyStore_def demoUser_def Let_def
      deserializeUser_def getUser_def getGoalById_def)

lemma putGoalRequest_award:
  assumes "deserializeUser st uid = Some user" and "u_id user = uid"
    and "getGoalById st gid = Some goal" and "g_userId goal = uid"
    and "\<not> completed goal" and "gd_completed body = Some True"
    and "achievementIdCounter st \<notin> fst ` set (achievements st)"
  shows "getUser (fst (putGoalRequest st uid gid body now)) uid
           = Some (user\<lparr>coins := coins user + 100\<rparr>)
       \<and> achievements (fst (putGoalRequest st uid gid body now)) = achievements st @
            [(achievementIdCounter st,
              \<lparr>a_id = achievementIdCounter st, a_userId = uid, a_type = ''goal_met'',
               a_name = ''Goal Achieved: '' @ g_name goal,
               a_description = ''You've successfully reached your goal of '' @ g_name goal @ ''!'',
               a_date = now, coinsAwarded = 100\<rparr>)]"
proof -
  have g: "getUser st (u_id user) = Some user"
    using assms(1,2) by (simp add: deserializeUser_def)
  have o: "g_userId goal = u_id user" using assms(2,4) by simp
  show ?thesis
    using assms(1,2)
    by (simp add: putGoalRequest_def putGoal_award [OF assms(3) o g assms(6,5)]
        getUser_def update_conv' update_fresh_append [OF assms(7)])
qed

text \<open>
  C6, as the claim states it, fails: the award is not paid at most once. The bike goal is
  completed (850 coins, one achievement). A \<^verbatim>\<open>PUT { completed: false }\<close> reopens it and the
  next \<^verbatim>\<open>PUT { completed: true }\<close> pays again. The goal card alone does the same: a card
  still showing the goal as created allocates 1000 paise, which sends
  \<^verbatim>\<open>completed: false\<close>, and then the whole target, which sends \<^verbatim>\<open>completed: true\<close>. Either
  way the owner ends with 950 coins and two \<^verbatim>\<open>goal_met\<close> achievements for one goal.
\<close>

theorem goal_award_paid_twice:
  "map_option coins (getUser doneStore 1) = Some 850
   \<and> map (\<lambda>(i, a). (a_type a, coinsAwarded a)) (achievements doneStore) = [(''goal_met'', 100)]
   \<and> map_option coins
        (getUser (fst (putGoalRequest reopenedStore 1 1 (markCompleteBody bikeGoal) 8)) 1)
       = Some 950
   \<and> map (\<lambda>(i, a). (a_type a, coinsAwarded a))
        (achievements (fst (putGoalRequest reopenedStore 1 1 (markCompleteBody bikeGoal) 8)))
       = [(''goal_met'', 100), (''goal_met'', 100)]
   \<and> users staleCardStore = users doneStore
   \<and> map_option coins (getUser (handleAllocationConfirm staleCardStore 1 bikeGoal 50000 8) 1)
       = Some 950
   \<and> map (\<lambda>(i, a). (a_type a, coinsAwarded a))
        (achievements (handleAllocationConfirm staleCardStore 1 bikeGoal 50000 8))
       = [(''goal_met'', 100), (''goal_met'', 100)]"
  by code_simp

text \<open>
  C6, amended: an allocation that brings \<open>currentAmount\<close> from below \<open>targetAmount\<close> to at
  or above it, on a goal stored as not completed, adds exactly 100 to the owner's coins,
  appends exactly one achievement of type \<^verbatim>\<open>goal_met\<close> and stores the goal as completed,
  and so does every update that carries \<^verbatim>\<open>completed: true\<close> to a goal stored as not
  completed; an update of, or an allocation to, a goal stored as completed changes no
  user's coins and no achievement, in the state right after the completion and in any other
  state. The award is therefore paid once per change of the stored flag from false to true,
  not once per goal. The owner is the session's user, and the achievement counter is
  fresh, as \<^verbatim>\<open>createAchievement\<close> keeps it.
\<close>

theorem goal_completion_award:
  assumes "deserializeUser st uid = Some user" and "u_id user = uid"
    and "getGoalById st (g_id goal) = Some goal" and "g_userId goal = uid"
    and "\<not> completed goal"
    and "currentAmount goal < targetAmount goal"
    and "targetAmount goal \<le> currentAmount goal + amountInPaise"
    and "achievementIdCounter st \<notin> fst ` set (achievements st)"
    and "st' = handleAllocationConfirm st uid goal amountInPaise now"
  shows "getUser st' uid = Some (user\<lparr>coins := coins user + 100\<rparr>)
       \<and> achievements st' = achievements st @
            [(achievementIdCounter st,
              \<lparr>a_id = achievementIdCounter st, a_userId = uid, a_type = ''goal_met'',
               a_name = ''Goal Achieved: '' @ g_name goal,
               a_description = ''You've successfully reached your goal of '' @ g_name goal @ ''!'',
               a_date = now, coinsAwarded = 100\<rparr>)]
       \<and> getGoalById st' (g_id goal)
           = Some (goal\<lparr>currentAmount := currentAmount goal + amountInPaise, completed := True\<rparr>)
       \<and> users (fst (putGoalRequest st' uid (g_id goal) body2 now2)) = users st'
       \<and> achievements (fst (putGoalRequest st' uid (g_id goal) body2 now2)) = achievements st'
       \<and> (g_id goal2 = g_id goal \<longrightarrow>
            users (handleAllocationConfirm st' uid goal2 amount2 now2) = users st'
          \<and> achievements (handleAllocationConfirm st' uid goal2 amount2 now2) = achievements st')
       \<and> (getGoalById stc gidc = Some goalc \<and> completed goalc \<longrightarrow>
            users (fst (putGoalRequest stc uidc gidc bodyc nowc)) = users stc
          \<and> achievements (fst (putGoalRequest stc uidc gidc bodyc nowc)) = achievements stc)
       \<and> (getGoalById stc (g_id cardc) = Some goalc \<and> completed goalc \<longrightarrow>
            users (handleAllocationConfirm stc uidc cardc amountc nowc) = users stc
          \<and> achievements (handleAllocationConfirm stc uidc cardc amountc nowc) = achievements stc)
       \<and> (deserializeUser std uidd = Some userd \<and> u_id userd = uidd
            \<and> getGoalById std gidd = Some goald \<and> g_userId goald = uidd
            \<and> \<not> completed goald \<and> gd_completed bodyd = Some True
            \<and> achievementIdCounter std \<notin> fst ` set (achievements std) \<longrightarrow>
            getUser (fst (putGoalRequest std uidd gidd bodyd nowd)) uidd
              = Some (userd\<lparr>coins := coins userd + 100\<rparr>)
          \<and> achievements (fst (putGoalRequest std uidd gidd bodyd nowd)) = achievements std @
              [(achievementIdCounter std,
                \<lparr>a_id = achievementIdCounter std, a_userId = uidd, a_type = ''goal_met'',
                 a_name = ''Goal Achieved: '' @ g_name goald,
                 a_description =
                   ''You've successfully reached your goal of '' @ g_name goald @ ''!'',
                 a_date = nowd, coinsAwarded = 100\<rparr>)])"
proof -
  let ?saving = "\<lparr>is_userId = uid, is_amount = - amountInPaise, is_date = now,
                  is_source = ''goal_allocation''\<rparr>"
  let ?goal' = "goal\<lparr>currentAmount := currentAmount goal + amountInPaise, completed := True\<rparr>"
  define st1 where "st1 = fst (putGoal st user (g_id goal) (allocationBody goal amountInPaise) now)"
  have g: "getUser st (u_id user) = Some user"
    using assms(1,2) by (simp add: deserializeUser_def)
  have st': "st' = fst (postSavingRequest st1 uid ?saving)"
    unfolding st1_def assms(9)
    by (rule allocation_requests [OF assms(1,2,3,4)])
  have same: "users st' = users st1" "goals st' = goals st1" "achievements st' = achievements st1"
    unfolding st' by (simp_all add: postSavingRequest_other_source)
  have o: "g_userId goal = u_id user" using assms(2,4) by simp
  have c: "gd_completed (allocationBody goal amountInPaise) = Some True"
    using assms(7) by (simp add: allocationBody_simps)
  note put = putGoal_award [OF assms(3) o g c assms(5), of now]
  have u1: "users st1 = AList.update uid (user\<lparr>coins := coins user + 100\<rparr>) (users st)"
    unfolding st1_def put using assms(2) by simp
  have a1: "achievements st1 = AList.update (achievementIdCounter st)
              \<lparr>a_id = achievementIdCounter st, a_userId = uid, a_type = ''goal_met'',
               a_name = ''Goal Achieved: '' @ g_name goal,
               a_description = ''You've successfully reached your goal of '' @ g_name goal @ ''!'',
               a_date = now, coinsAwarded = 100\<rparr> (achievements st)"
    unfolding st1_def put using assms(2) by simp
  have g1: "goals st1 = AList.update (g_id goal) ?goal' (goals st)"
    unfolding st1_def put using assms(7) by (simp add: allocationBody_simps)
  have user': "getUser st' uid = Some (user\<lparr>coins := coins user + 100\<rparr>)"
    by (simp add: getUser_def same u1 update_conv')
  have ach: "achievements st' = achievements st @
            [(achievementIdCounter st,
              \<lparr>a_id = achievementIdCounter st, a_userId = uid, a_type = ''goal_met'',
               a_name = ''Goal Achieved: '' @ g_name goal,
               a_description = ''You've successfully reached your goal of '' @ g_name goal @ ''!'',
               a_date = now, coinsAwarded = 100\<rparr>)]"
    unfolding same a1 by (rule update_fresh_append [OF assms(8)])
  have goal': "getGoalById st' (g_id goal) = Some ?goal'"
    by (simp add: getGoalById_def same g1 update_conv')
  have compl: "completed ?goal'" by simp
  have again: "users (fst (putGoalRequest st' uid (g_id goal) body2 now2)) = users st'
       \<and> achievements (fst (putGoalRequest st' uid (g_id goal) body2 now2)) = achievements st'"
    by (rule putGoalRequest_completed [OF goal' compl])
  have second: "g_id goal2 = g_id goal \<longrightarrow>
            users (handleAllocationConfirm st' uid goal2 amount2 now2) = users st'
          \<and> achievements (handleAllocationConfirm st' uid goal2 amount2 now2) = achievements st'"
  proof
    assume e: "g_id goal2 = g_id goal"
    have "getGoalById st' (g_id goal2) = Some ?goal'" using goal' e by simp
    then show "users (handleAllocationConfirm st' uid goal2 amount2 now2) = users st'
          \<and> achievements (handleAllocationConfirm st' uid goal2 amount2 now2) = achievements st'"
      using compl by (rule handleAllocationConfirm_completed)
  qed
  have anywhere: "getGoalById stc gidc = Some goalc \<and> completed goalc \<longrightarrow>
            users (fst (putGoalRequest stc uidc gidc bodyc nowc)) = users stc
          \<and> achievements (fst (putGoalRequest stc uidc gidc bodyc nowc)) = achievements stc"
    using putGoalRequest_completed [of stc gidc goalc uidc bodyc nowc] by blast
  have any_card: "getGoalById stc (g_id cardc) = Some goalc \<and> completed goalc \<longrightarrow>
            users (handleAllocationConfirm stc uidc cardc amountc nowc) = users stc
          \<and> achievements (handleAllocationConfirm stc uidc cardc amountc nowc) = achievements stc"
    using handleAllocationConfirm_completed [of stc cardc goalc uidc amountc nowc] by blast
  have paid: "deserializeUser std uidd = Some userd \<and> u_id userd = uidd
            \<and> getGoalById std gidd = Some goald \<and> g_userId goald = uidd
            \<and> \<not> completed goald \<and> gd_completed bodyd = Some True
            \<and> achievementIdCounter std \<notin> fst ` set (achievements std) \<longrightarrow>
            getUser (fst (putGoalRequest std uidd gidd bodyd nowd)) uidd
              = Some (userd\<lparr>coins := coins userd + 100\<rparr>)
          \<and> achievements (fst (putGoalRequest std uidd gidd bodyd nowd)) = achievements std @
              [(achievementIdCounter std,
                \<lparr>a_id = achievementIdCounter std, a_userId = uidd, a_type = ''goal_met'',
                 a_name = ''Goal Achieved: '' @ g_name goald,
                 a_description =
                   ''You've successfully reached your goal of '' @ g_name goald @ ''!'',
                 a_date = nowd, coinsAwarded = 100\<rparr>)]"
    using putGoalRequest_award [of std uidd userd gidd goald bodyd nowd] by blast
  show ?thesis using user' ach goal' again second anywhere any_card paid by blast
qed


lemma reopenedStore_eval:
  "deserializeUser reopenedStore 1 = Some (demoUser\<lparr>coins := 850\<rparr>)"
  "getGoalById reopenedStore 1 = Some (doneGoal\<lparr>completed := False\<rparr>)"
  "achievementIdCounter reopenedStore = 2"
  "map fst (achievements reopenedStore) = [1]"
  by code_simp+

lemma doneStore_eval:
  "deserializeUser doneStore 1 = Some (demoUser\<lparr>coins := 850\<rparr>)"
  "getGoalById doneStore 1 = Some doneGoal"
  by code_simp+

theorem goal_completion_award_witness:
  "getUser doneStore 1 = Some (demoUser\<lparr>coins := coins demoUser + 100\<rparr>)
   \<and> achievements doneStore = achievements bikeStore @
        [(achievementIdCounter bikeStore,
          \<lparr>a_id = achievementIdCounter bikeStore, a_userId = 1, a_type = ''goal_met'',
           a_name = ''Goal Achieved: '' @ g_name bikeGoal,
           a_description = ''You've successfully reached your goal of '' @ g_name bikeGoal @ ''!'',
           a_date = 6, coinsAwarded = 100\<rparr>)]
   \<and> getGoalById doneStore (g_id bikeGoal)
       = Some (bikeGoal\<lparr>currentAmount := currentAmount bikeGoal + 50000, completed := True\<rparr>)
   \<and> users (fst (putGoalRequest doneStore 1 (g_id bikeGoal) (markCompleteBody bikeGoal) 7))
       = users doneStore
   \<and> achievements (fst (putGoalRequest doneStore 1 (g_id bikeGoal) (markCompleteBody bikeGoal) 7))
       = achievements doneStore
   \<and> users (handleAllocationConfirm doneStore 1 doneGoal 1000 7) = users doneStore
   \<and> achievements (handleAllocationConfirm doneStore 1 doneGoal 1000 7)
       = achievements doneStore
   \<and> users (fst (putGoalRequest doneStore 1 1 (no_goal_data\<lparr>gd_completed := Some False\<rparr>) 7))
       = users doneStore
   \<and> achievements
        (fst (putGoalRequest doneStore 1 1 (no_goal_data\<lparr>gd_completed := Some False\<rparr>) 7))
       = achievements doneStore
   \<and> users (handleAllocationConfirm doneStore 1 bikeGoal 1000 7) = users doneStore
   \<and> achievements (handleAllocationConfirm doneStore 1 bikeGoal 1000 7) = achievements doneStore
   \<and> getUser (fst (putGoalRequest reopenedStore 1 1 (markCompleteBody bikeGoal) 8)) 1
       = Some (demoUser\<lparr>coins := 850\<rparr>\<lparr>coins := coins (demoUser\<lparr>coins := 850\<rparr>) + 100\<rparr>)
   \<and> achievements (fst (putGoalRequest reopenedStore 1 1 (markCompleteBody bikeGoal) 8))
       = achievements reopenedStore @
         [(achievementIdCounter reopenedStore,
           \<lparr>a_id = achievementIdCounter reopenedStore, a_userId = 1, a_type = ''goal_met'',
            a_name = ''Goal Achieved: '' @ g_name (doneGoal\<lparr>completed := False\<rparr>),
            a_description = ''You've successfully reached your goal of ''
               @ g_name (doneGoal\<lparr>completed := False\<rparr>) @ ''!'',
            a_date = 8, coinsAwarded = 100\<rparr>)]"
proof -
  have h2: "u_id demoUser = 1" by (simp add: demoUser_def)
  have h4: "g_userId bikeGoal = 1" by (simp add: bikeGoal_def)
  have h5: "\<not> completed bikeGoal" by (simp add: bikeGoal_def)
  have h6: "currentAmount bikeGoal < targetAmount bikeGoal" by (simp add: bikeGoal_def)
  have h7: "targetAmount bikeGoal \<le> currentAmount bikeGoal + 50000" by (simp add: bikeGoal_def)
  have same: "g_id doneGoal = g_id bikeGoal" by (simp add: doneGoal_def)
  have completed_now: "getGoalById doneStore 1 = Some doneGoal \<and> completed doneGoal"
    using doneStore_eval(2) by (simp add: doneGoal_def)
  have stale_card: "getGoalById doneStore (g_id bikeGoal) = Some doneGoal \<and> completed doneGoal"
    using doneStore_eval(2) by (simp add: doneGoal_def bikeGoal_def)
  have reopened: "deserializeUser reopenedStore 1 = Some (demoUser\<lparr>coins := 850\<rparr>)
      \<and> u_id (demoUser\<lparr>coins := 850\<rparr>) = 1
      \<and> getGoalById reopenedStore 1 = Some (doneGoal\<lparr>completed := False\<rparr>)
      \<and> g_userId (doneGoal\<lparr>completed := False\<rparr>) = 1
      \<and> \<not> completed (doneGoal\<lparr>completed := False\<rparr>)
      \<and> gd_completed (markCompleteBody bikeGoal) = Some True
      \<and> achievementIdCounter reopenedStore \<notin> fst ` set (achievements reopenedStore)"
  proof -
    have "fst ` set (achievements reopenedStore) = set (map fst (achievements reopenedStore))"
      by simp
    then have "achievementIdCounter reopenedStore \<notin> fst ` set (achievements reopenedStore)"
      by (simp only: reopenedStore_eval(3,4)) simp
    then show ?thesis
      using reopenedStore_eval(1,2)
      by (simp add: demoUser_def doneGoal_def bikeGoal_def markCompleteBody_def no_goal_data_def)
  qed
  show ?thesis
    using goal_completion_award [OF bikeStore_eval(1) h2 bikeStore_eval(2) h4 h5 h6 h7
        bikeStore_eval(3) doneStore_def,
        of "markCompleteBody bikeGoal" 7 doneGoal 1000
           doneStore 1 doneGoal 1 "no_goal_data\<lparr>gd_completed := Some False\<rparr>" 7 bikeGoal 1000
           reopenedStore 1 "demoUser\<lparr>coins := 850\<rparr>" 1 "doneGoal\<lparr>completed := False\<rparr>"
           "markCompleteBody bikeGoal" 8]
      same completed_now stale_card reopened
    by blast
qed

section \<open>Goals over time\<close>

lemma allocation_step:
  assumes "deserializeUser st uid = Some user" and "u_id user = uid"
    and "getGoalById st (g_id goal) = Some goal" and "g_userId goal = uid"
  shows "getGoalById (handleAllocationConfirm st uid goal a now) (g_id goal)
           = Some (goal\<lparr>currentAmount := currentAmount goal + a,
                         completed := targetAmount goal \<le> currentAmount goal + a\<rparr>)"
    and "\<exists>user'. deserializeUser (handleAllocationConfirm st uid goal a now) uid = Some user'
           \<and> u_id user' = uid"
proof -
  let ?saving = "\<lparr>is_userId = uid, is_amount = - a, is_date = now,
                  is_source = ''goal_allocation''\<rparr>"
  define st1 where "st1 = fst (putGoal st user (g_id goal) (allocationBody goal a) now)"
  have st': "handleAllocationConfirm st uid goal a now = fst (postSavingRequest st1 uid ?saving)"
    unfolding st1_def by (rule allocation_requests [OF assms])
  have same: "users (handleAllocationConfirm st uid goal a now) = users st1"
    "goals (handleAllocationConfirm st uid goal a now) = goals st1"
    unfolding st' by (simp_all add: postSavingRequest_other_source)
  have g: "getUser st (u_id user) = Some user"
    using assms(1,2) by (simp add: deserializeUser_def)
  have o: "g_userId goal = u_id user" using assms(2,4) by simp
  have "goals st1 = AList.update (g_id goal) (merge_goal goal (allocationBody goal a)) (goals st)
      \<and> (\<exists>user'. map_of (users st1) uid = Some user' \<and> u_id user' = uid)"
  proof (cases "gd_completed (allocationBody goal a) = Some True \<and> \<not> completed goal")
    case True
    then show ?thesis
      unfolding st1_def using assms(2)
      by (simp add: putGoal_award [OF assms(3) o g] update_conv')
  next
    case False
    then have "gd_completed (allocationBody goal a) \<noteq> Some True \<or> completed goal" by simp
    then show ?thesis
      unfolding st1_def using g assms(2)
      by (simp add: putGoal_no_award [OF assms(3) o] getUser_def)
  qed
  then show "getGoalById (handleAllocationConfirm st uid goal a now) (g_id goal)
           = Some (goal\<lparr>currentAmount := currentAmount goal + a,
                         completed := targetAmount goal \<le> currentAmount goal + a\<rparr>)"
    and "\<exists>user'. deserializeUser (handleAllocationConfirm st uid goal a now) uid = Some user'
           \<and> u_id user' = uid"
    by (simp_all add: getGoalById_def deserializeUser_def getUser_def same update_conv'
        allocationBody_simps)
qed

lemma allocations_not_found:
  "getGoalById st gid = None \<Longrightarrow> allocations st uid gid as = st"
  by (cases as) auto

lemma allocations_append:
  "allocations st uid gid (as1 @ as2) = allocations (allocations st uid gid as1) uid gid as2"
proof (induction as1 arbitrary: st)
  case Nil
  show ?case by simp
next
  case (Cons p as1)
  obtain a t where p: "p = (a, t)" by (cases p)
  show ?case
  proof (cases "getGoalById st gid")
    case None
    then show ?thesis by (simp add: p allocations_not_found)
  next
    case (Some goal)
    then show ?thesis by (simp add: p Cons.IH)
  qed
qed

lemma allocations_inv:
  assumes "deserializeUser st uid = Some user" and "u_id user = uid"
    and "getGoalById st gid = Some goal" and "g_id goal = gid" and "g_userId goal = uid"
    and "\<forall>(a, t) \<in> set as. 0 \<le> a"
    and "completed goal \<longrightarrow> targetAmount goal \<le> currentAmount goal"
  shows "\<exists>user' goal'. deserializeUser (allocations st uid gid as) uid = Some user'
           \<and> u_id user' = uid
           \<and> getGoalById (allocations st uid gid as) gid = Some goal'
           \<and> g_id goal' = gid \<and> g_userId goal' = uid
           \<and> targetAmount goal' = targetAmount goal
           \<and> currentAmount goal \<le> currentAmount goal'
           \<and> (completed goal \<longrightarrow> completed goal')
           \<and> (completed goal' \<longrightarrow> targetAmount goal' \<le> currentAmount goal')"
  using assms
proof (induction as arbitrary: st user goal)
  case Nil
  then show ?case by simp
next
  case (Cons p as)
  obtain a t where p: "p = (a, t)" by (cases p)
  let ?st = "handleAllocationConfirm st uid goal a t"
  let ?goal = "goal\<lparr>currentAmount := currentAmount goal + a,
                    completed := targetAmount goal \<le> currentAmount goal + a\<rparr>"
  have found: "getGoalById st (g_id goal) = Some goal" using Cons.prems(3,4) by simp
  note step = allocation_step [OF Cons.prems(1,2) found Cons.prems(5), of a t]
  from step(2) obtain user1 where u: "deserializeUser ?st uid = Some user1" "u_id user1 = uid"
    by blast
  have g: "getGoalById ?st gid = Some ?goal" using step(1) Cons.prems(4) by simp
  have nonneg: "0 \<le> a" using Cons.prems(6) p by simp
  have rest: "\<forall>(a, t) \<in> set as. 0 \<le> a" using Cons.prems(6) by simp
  have inv: "completed ?goal \<longrightarrow> targetAmount ?goal \<le> currentAmount ?goal" by simp
  have "\<exists>user' goal'. deserializeUser (allocations ?st uid gid as) uid = Some user'
           \<and> u_id user' = uid
           \<and> getGoalById (allocations ?st uid gid as) gid = Some goal'
           \<and> g_id goal' = gid \<and> g_userId goal' = uid
           \<and> targetAmount goal' = targetAmount ?goal
           \<and> currentAmount ?goal \<le> currentAmount goal'
           \<and> (completed ?goal \<longrightarrow> completed goal')
           \<and> (completed goal' \<longrightarrow> targetAmount goal' \<le> currentAmount goal')"
    by (rule Cons.IH [OF u g _ _ rest inv]) (simp_all add: Cons.prems)
  then obtain user' goal' where r:
    "deserializeUser (allocations ?st uid gid as) uid = Some user'" "u_id user' = uid"
    "getGoalById (allocations ?st uid gid as) gid = Some goal'"
    "g_id goal' = gid" "g_userId goal' = uid" "targetAmount goal' = targetAmount ?goal"
    "currentAmount ?goal \<le> currentAmount goal'" "completed ?goal \<longrightarrow> completed goal'"
    "completed goal' \<longrightarrow> targetAmount goal' \<le> currentAmount goal'"
    by blast
  have run: "allocations st uid gid (p # as) = allocations ?st uid gid as"
    using Cons.prems(3) p by simp
  have amt: "currentAmount goal \<le> currentAmount goal'" using r(7) nonneg by simp
  have keep: "completed goal \<longrightarrow> completed goal'"
    using r(8) Cons.prems(7) nonneg by auto
  have tgt: "targetAmount goal' = targetAmount goal" using r(6) by simp
  show ?case
    unfolding run using r(1,2,3,4,5,9) amt keep tgt by blast
qed

lemma allocations_any:
  assumes "deserializeUser st uid = Some user" and "u_id user = uid"
    and "getGoalById st gid = Some goal" and "g_id goal = gid" and "g_userId goal = uid"
    and "\<forall>(a, t) \<in> set as. 0 \<le> a"
  shows "\<exists>goal'. getGoalById (allocations st uid gid as) gid = Some goal'
           \<and> currentAmount goal \<le> currentAmount goal'
           \<and> (completed goal \<and> targetAmount goal \<le> currentAmount goal \<longrightarrow> completed goal')"
proof (cases "completed goal \<longrightarrow> targetAmount goal \<le> currentAmount goal")
  case True
  from allocations_inv [OF assms True] show ?thesis by blast
next
  case False
  then have c: "completed goal" and below: "\<not> targetAmount goal \<le> currentAmount goal" by auto
  show ?thesis
  proof (cases as)
    case Nil
    then show ?thesis using assms(3) by simp
  next
    case (Cons p rest)
    obtain a t where p: "p = (a, t)" by (cases p)
    let ?st = "handleAllocationConfirm st uid goal a t"
    let ?goal = "goal\<lparr>currentAmount := currentAmount goal + a,
                      completed := targetAmount goal \<le> currentAmount goal + a\<rparr>"
    have found: "getGoalById st (g_id goal) = Some goal" using assms(3,4) by simp
    note step = allocation_step [OF assms(1,2) found assms(5), of a t]
    from step(2) obtain user1 where u: "deserializeUser ?st uid = Some user1" "u_id user1 = uid"
      by blast
    have g: "getGoalById ?st gid = Some ?goal" using step(1) assms(4) by simp
    have nonneg: "0 \<le> a" using assms(6) Cons p by simp
    have rest: "\<forall>(a, t) \<in> set rest. 0 \<le> a" using assms(6) Cons by simp
    have inv: "completed ?goal \<longrightarrow> targetAmount ?goal \<le> currentAmount ?goal" by simp
    have ids: "g_id ?goal = gid" "g_userId ?goal = uid" using assms(4,5) by simp_all
    from allocations_inv [OF u g ids rest inv]
    obtain goal' where r: "getGoalById (allocations ?st uid gid rest) gid = Some goal'"
      "currentAmount ?goal \<le> currentAmount goal'"
      by blast
    have run: "allocations st uid gid as = allocations ?st uid gid rest"
      using assms(3) Cons p by simp
    have "currentAmount goal \<le> currentAmount goal'" using r(2) nonneg by simp
    then show ?thesis unfolding run using r(1) below by blast
  qed
qed

lemma postGoal_created:
  assumes "deserializeUser st uid = Some user" and "u_id user = uid"
  shows "deserializeUser (fst (postGoal st user body)) uid = Some user"
    and "getGoalById (fst (postGoal st user body)) (g_id (snd (postGoal st user body)))
           = Some (snd (postGoal st user body))"
    and "g_userId (snd (postGoal st user body)) = uid"
    and "\<not> completed (snd (postGoal st user body))"
    and "currentAmount (snd (postGoal st user body)) = 0"
  using assms
  by (simp_all add: postGoal_def createGoal_def insertGoalSchema_parse_def Let_def
      deserializeUser_def getUser_def getGoalById_def update_conv')

lemma allocations_after_creation:
  assumes "deserializeUser st uid = Some user" and "u_id user = uid"
    and "\<forall>(a, t) \<in> set (as1 @ as2). 0 \<le> a"
  shows "\<exists>g1 g2.
      getGoalById (allocations (fst (postGoal st user body)) uid
         (g_id (snd (postGoal st user body))) as1) (g_id (snd (postGoal st user body))) = Some g1
    \<and> getGoalById (allocations (fst (postGoal st user body)) uid
         (g_id (snd (postGoal st user body))) (as1 @ as2)) (g_id (snd (postGoal st user body)))
        = Some g2
    \<and> currentAmount g1 \<le> currentAmount g2 \<and> (completed g1 \<longrightarrow> completed g2)"
proof -
  let ?st = "fst (postGoal st user body)"
  let ?g = "snd (postGoal st user body)"
  note c = postGoal_created [OF assms(1,2), of body]
  have n1: "\<forall>(a, t) \<in> set as1. 0 \<le> a" and n2: "\<forall>(a, t) \<in> set as2. 0 \<le> a"
    using assms(3) by auto
  have inv: "completed ?g \<longrightarrow> targetAmount ?g \<le> currentAmount ?g" using c(4) by simp
  from allocations_inv [OF c(1) assms(2) c(2) refl c(3) n1 inv]
  obtain user1 g1 where a:
    "deserializeUser (allocations ?st uid (g_id ?g) as1) uid = Some user1" "u_id user1 = uid"
    "getGoalById (allocations ?st uid (g_id ?g) as1) (g_id ?g) = Some g1"
    "g_id g1 = g_id ?g" "g_userId g1 = uid"
    "completed g1 \<longrightarrow> targetAmount g1 \<le> currentAmount g1"
    by blast
  from allocations_inv [OF a(1,2,3,4,5) n2 a(6)]
  obtain g2 where b:
    "getGoalById (allocations (allocations ?st uid (g_id ?g) as1) uid (g_id ?g) as2) (g_id ?g)
       = Some g2"
    "currentAmount g1 \<le> currentAmount g2" "completed g1 \<longrightarrow> completed g2"
    by blast
  show ?thesis
    using a(3) b by (auto simp add: allocations_append)
qed

text \<open>
  C7, as the claim states it, fails: \<^verbatim>\<open>PUT /api/goals/:id\<close> hands the request body to
  \<^verbatim>\<open>updateGoal\<close> unchecked. The completed bike goal, holding 50000 paise, is sent
  \<^verbatim>\<open>{ completed: false, currentAmount: 0 }\<close>.
\<close>

theorem put_goal_reopens_and_empties:
  "map_option completed (getGoalById doneStore 1) = Some True
   \<and> map_option currentAmount (getGoalById doneStore 1) = Some 50000
   \<and> map_option completed
        (getGoalById (fst (putGoalRequest doneStore 1 1
           (no_goal_data\<lparr>gd_currentAmount := Some 0, gd_completed := Some False\<rparr>) 7)) 1)
       = Some False
   \<and> map_option currentAmount
        (getGoalById (fst (putGoalRequest doneStore 1 1
           (no_goal_data\<lparr>gd_currentAmount := Some 0, gd_completed := Some False\<rparr>) 7)) 1)
       = Some 0"
  by code_simp

text \<open>
  C7, amended: every goal is created with \<open>currentAmount = 0\<close> and \<open>completed = False\<close>
  whatever the client sends, both through the route and through \<^verbatim>\<open>createGoal\<close> itself. The
  server stores the \<open>completed\<close> and \<open>currentAmount\<close> of any PUT, so it enforces neither
  monotonicity. Over any sequence of allocations made from the goal card (non-negative
  amounts, each computed from the goal as stored) \<open>currentAmount\<close> never decreases. Each
  allocation stores \<open>completed\<close> as \<open>targetAmount \<le> currentAmount + amount\<close>: a completed
  goal whose amount has reached its target stays completed over such a sequence, and for a
  goal that only its creation and such allocations have touched the flag never goes from
  true back to false; a completed goal left below its target (by a PUT that raised the
  target or set the flag) is reopened by the next allocation that stays below the target.
\<close>

theorem goals_start_empty_and_allocations_only_grow:
  assumes "deserializeUser st uid = Some user" and "u_id user = uid"
    and "getGoalById st gid = Some goal" and "g_id goal = gid" and "g_userId goal = uid"
    and "\<forall>(a, t) \<in> set as. 0 \<le> a"
  shows "currentAmount (snd (postGoal st0 user0 body)) = 0
       \<and> \<not> completed (snd (postGoal st0 user0 body))
       \<and> getGoalById (fst (postGoal st0 user0 body)) (g_id (snd (postGoal st0 user0 body)))
           = Some (snd (postGoal st0 user0 body))
       \<and> currentAmount (snd (createGoal st0 body)) = 0
       \<and> \<not> completed (snd (createGoal st0 body))
       \<and> (\<exists>goal'. getGoalById (allocations st uid gid as) gid = Some goal'
           \<and> currentAmount goal \<le> currentAmount goal'
           \<and> (completed goal \<and> targetAmount goal \<le> currentAmount goal \<longrightarrow> completed goal'))
       \<and> getGoalById (handleAllocationConfirm st uid goal amountInPaise now) gid
           = Some (goal\<lparr>currentAmount := currentAmount goal + amountInPaise,
                         completed := targetAmount goal \<le> currentAmount goal + amountInPaise\<rparr>)
       \<and> ((\<forall>(a, t) \<in> set (as1 @ as2). 0 \<le> a) \<longrightarrow>
           (\<exists>g1 g2.
              getGoalById (allocations (fst (postGoal st user body1)) uid
                 (g_id (snd (postGoal st user body1))) as1) (g_id (snd (postGoal st user body1)))
                = Some g1
            \<and> getGoalById (allocations (fst (postGoal st user body1)) uid
                 (g_id (snd (postGoal st user body1))) (as1 @ as2))
                 (g_id (snd (postGoal st user body1)))
                = Some g2
            \<and> currentAmount g1 \<le> currentAmount g2 \<and> (completed g1 \<longrightarrow> completed g2)))"
proof -
  have created: "currentAmount (snd (postGoal st0 user0 body)) = 0
       \<and> \<not> completed (snd (postGoal st0 user0 body))
       \<and> getGoalById (fst (postGoal st0 user0 body)) (g_id (snd (postGoal st0 user0 body)))
           = Some (snd (postGoal st0 user0 body))
       \<and> currentAmount (snd (createGoal st0 body)) = 0
       \<and> \<not> completed (snd (createGoal st0 body))"
    by (simp add: postGoal_def createGoal_def Let_def getGoalById_def update_conv')
  have found: "getGoalById st (g_id goal) = Some goal" using assms(3,4) by simp
  have one: "getGoalById (handleAllocationConfirm st uid goal amountInPaise now) gid
           = Some (goal\<lparr>currentAmount := currentAmount goal + amountInPaise,
                         completed := targetAmount goal \<le> currentAmount goal + amountInPaise\<rparr>)"
    using allocation_step(1) [OF assms(1,2) found assms(5), of amountInPaise now] assms(4)
    by simp
  have fresh: "(\<forall>(a, t) \<in> set (as1 @ as2). 0 \<le> a) \<longrightarrow>
           (\<exists>g1 g2.
              getGoalById (allocations (fst (postGoal st user body1)) uid
                 (g_id (snd (postGoal st user body1))) as1) (g_id (snd (postGoal st user body1)))
                = Some g1
            \<and> getGoalById (allocations (fst (postGoal st user body1)) uid
                 (g_id (snd (postGoal st user body1))) (as1 @ as2))
                 (g_id (snd (postGoal st user body1)))
                = Some g2
            \<and> currentAmount g1 \<le> currentAmount g2 \<and> (completed g1 \<longrightarrow> completed g2))"
    using allocations_after_creation [OF assms(1,2), of as1 as2 body1] by blast
  show ?thesis
    using created allocations_any [OF assms] one fresh by blast
qed

theorem goals_start_empty_and_allocations_only_grow_witness:
  "currentAmount (snd (postGoal demoStore demoUser bikeBody)) = 0
   \<and> \<not> completed (snd (postGoal demoStore demoUser bikeBody))
   \<and> currentAmount (snd (createGoal demoStore bikeBody)) = 0
   \<and> \<not> completed (snd (createGoal demoStore bikeBody))
   \<and> (\<exists>goal'. getGoalById (allocations doneStore 1 1 [(1000, 7), (0, 8)]) 1 = Some goal'
       \<and> currentAmount doneGoal \<le> currentAmount goal'
       \<and> completed goal')
   \<and> (\<exists>g1 g2.
        getGoalById (allocations (fst (postGoal doneStore (demoUser\<lparr>coins := 850\<rparr>) bikeBody)) 1
           (g_id (snd (postGoal doneStore (demoUser\<lparr>coins := 850\<rparr>) bikeBody)))
           [(20000, 9), (30000, 10)])
           (g_id (snd (postGoal doneStore (demoUser\<lparr>coins := 850\<rparr>) bikeBody))) = Some g1
      \<and> getGoalById (allocations (fst (postGoal doneStore (demoUser\<lparr>coins := 850\<rparr>) bikeBody)) 1
           (g_id (snd (postGoal doneStore (demoUser\<lparr>coins := 850\<rparr>) bikeBody)))
           ([(20000, 9), (30000, 10)] @ [(500, 11)]))
           (g_id (snd (postGoal doneStore (demoUser\<lparr>coins := 850\<rparr>) bikeBody))) = Some g2
      \<and> currentAmount g1 \<le> currentAmount g2 \<and> completed g1 \<and> completed g2)"
proof -
  have h2: "u_id (demoUser\<lparr>coins := 850\<rparr>) = 1" by (simp add: demoUser_def)
  have h4: "g_id doneGoal = 1" by (simp add: doneGoal_def bikeGoal_def)
  have h5: "g_userId doneGoal = 1" by (simp add: doneGoal_def bikeGoal_def)
  have h6: "\<forall>(a, t) \<in> set [(1000::int, 7::int), (0, 8)]. 0 \<le> a" by simp
  have c: "completed doneGoal \<and> targetAmount doneGoal \<le> currentAmount doneGoal"
    by (simp add: doneGoal_def bikeGoal_def)
  have n: "\<forall>(a, t) \<in> set ([(20000::int, 9::int), (30000, 10)] @ [(500, 11)]). 0 \<le> a" by simp
  have c1: "map_option completed
      (getGoalById (allocations (fst (postGoal doneStore (demoUser\<lparr>coins := 850\<rparr>) bikeBody)) 1
           (g_id (snd (postGoal doneStore (demoUser\<lparr>coins := 850\<rparr>) bikeBody)))
           [(20000, 9), (30000, 10)])
           (g_id (snd (postGoal doneStore (demoUser\<lparr>coins := 850\<rparr>) bikeBody)))) = Some True"
    by code_simp
  show ?thesis
    using goals_start_empty_and_allocations_only_grow
      [OF doneStore_eval(1) h2 doneStore_eval(2) h4 h5 h6,
        of demoStore demoUser bikeBody 1000 7 "[(20000, 9), (30000, 10)]" "[(500, 11)]" bikeBody]
      c n c1
    by auto
qed

section \<open>Coin awards at the storage boundary\<close>

lemma loginHandler_coins:
  assumes "getUser st (u_id user) = Some stored"
  shows "map_option coins (getUser (fst (loginHandler st user now)) (u_id user))
           = Some (coins user + snd (loginStreak user now))"
  by (simp add: loginHandler_def split_beta Let_def getUser_updateUser [OF assms]
      getUser_users_update merge_user_def no_user_data_def spread_key_def)

lemma postExpense_coins:
  assumes "getUser st (u_id user) = Some stored"
    and "snd (postExpense st user expenseData tz now) = Some 10"
  shows "map_option coins (getUser (fst (postExpense st user expenseData tz now)) (u_id user))
           = Some (coins user + 10)"
proof -
  define st1 where "st1 = fst (createExpense st (expenseData\<lparr>ie_userId := u_id user\<rparr>))"
  have g1: "getUser st1 (u_id user) = Some stored"
    using assms(1) by (simp add: st1_def createExpense_def Let_def getUser_def)
  show ?thesis
    using assms(2)
    by (simp add: postExpense_def split_beta Let_def st1_def [symmetric]
        getUser_updateUser [OF g1] getUser_users_update merge_user_def no_user_data_def
        spread_key_def or_zero_id split: if_splits)
qed

lemma postSaving_coins:
  assumes "getUser st (u_id user) = Some stored"
    and "is_source body = ''piggy_bank''"
  shows "map_option coins (getUser (fst (postSaving st user body)) (u_id user))
           = Some (coins user + 5)"
proof -
  define st1 where "st1 = fst (createSaving st (body\<lparr>is_userId := u_id user\<rparr>))"
  have g1: "getUser st1 (u_id user) = Some stored"
    using assms(1) by (simp add: st1_def createSaving_def Let_def getUser_def)
  show ?thesis
    using assms(2)
    by (simp add: postSaving_def split_beta Let_def st1_def [symmetric]
        getUser_updateUser [OF g1] getUser_users_update merge_user_def no_user_data_def
        spread_key_def or_zero_id)
qed

lemma putGoal_coins:
  assumes "getUser st (u_id user) = Some stored"
    and "getGoalById st gid = Some goal" and "g_userId goal = u_id user"
    and "gd_completed gbody = Some True" and "\<not> completed goal"
  shows "map_option coins (getUser (fst (putGoal st user gid gbody now)) (u_id user))
           = Some (coins user + 100)"
  by (simp add: putGoal_award [OF assms(2,3,1,4,5)] getUser_def update_conv')

text \<open>
  C9, as the claim states it, fails: no route adjusts the stored coins; each writes the
  coins of the row it read earlier plus its award, and \<^verbatim>\<open>updateUser\<close> overwrites. Two
  requests of the demo user (750 coins) both read the row; the piggy-bank deposit writes
  755; the login, still holding the 750 it read, is awarded 35 and writes 785. The 5 coins
  are lost: the two awards add up to 790.
\<close>

theorem concurrent_awards_lose_an_increment:
  "map_option coins (getUser demoStore 1) = Some 750
   \<and> snd (postSaving demoStore demoUser piggyBody) = Some 5
   \<and> map_option coins (getUser (fst (postSaving demoStore demoUser piggyBody)) 1) = Some 755
   \<and> r_coinsAwarded (snd (loginHandler (fst (postSaving demoStore demoUser piggyBody)) demoUser 90000000))
       = Some 35
   \<and> map_option coins
        (getUser (fst (loginHandler (fst (postSaving demoStore demoUser piggyBody)) demoUser 90000000)) 1)
       = Some 785
   \<and> (785::int) \<noteq> 750 + 5 + 35"
  by code_simp


text \<open>
  C9, amended: every coin award (daily login, first expense of the day, piggy-bank saving,
  goal completion) stores, through the overwriting \<^verbatim>\<open>updateUser\<close>, the coins of the user row
  read at the start of the request plus the award, whatever the row holds by then; the
  stored coins therefore grow by exactly the award when the row read is still the row
  stored (\<open>stored = user\<close>), and only then is no increment lost.
\<close>

theorem coin_awards_overwrite_with_snapshot:
  assumes "getUser st (u_id user) = Some stored"
  shows "map_option coins (getUser (fst (loginHandler st user now)) (u_id user))
           = Some (coins user + snd (loginStreak user now))
       \<and> (snd (postExpense st user expenseData tz now) = Some 10 \<longrightarrow>
            map_option coins (getUser (fst (postExpense st user expenseData tz now)) (u_id user))
              = Some (coins user + 10))
       \<and> (is_source body = ''piggy_bank'' \<longrightarrow>
            map_option coins (getUser (fst (postSaving st user body)) (u_id user))
              = Some (coins user + 5))
       \<and> (getGoalById st gid = Some goal \<and> g_userId goal = u_id user
            \<and> gd_completed gbody = Some True \<and> \<not> completed goal \<longrightarrow>
            map_option coins (getUser (fst (putGoal st user gid gbody now)) (u_id user))
              = Some (coins user + 100))"
  using loginHandler_coins [OF assms] postExpense_coins [OF assms] postSaving_coins [OF assms]
    putGoal_coins [OF assms]
  by blast

theorem coin_awards_overwrite_with_snapshot_witness:
  "map_option coins (getUser (fst (loginHandler bikeStore demoUser 90000000)) (u_id demoUser))
     = Some (coins demoUser + snd (loginStreak demoUser 90000000))
   \<and> map_option coins
        (getUser (fst (postExpense bikeStore demoUser teaExpense ist 90000000)) (u_id demoUser))
       = Some (coins demoUser + 10)
   \<and> map_option coins (getUser (fst (postSaving bikeStore demoUser piggyBody)) (u_id demoUser))
       = Some (coins demoUser + 5)
   \<and> map_option coins
        (getUser (fst (putGoal bikeStore demoUser 1 (markCompleteBody bikeGoal) 90000000))
           (u_id demoUser))
       = Some (coins demoUser + 100)"
proof -
  have stored: "getUser bikeStore (u_id demoUser) = Some demoUser"
    using bikeStore_eval(1) by (simp add: deserializeUser_def demoUser_def)
  have first_today: "snd (postExpense bikeStore demoUser teaExpense ist 90000000) = Some 10"
    by code_simp
  have piggy: "is_source piggyBody = ''piggy_bank''" by (simp add: piggyBody_def)
  have completing: "getGoalById bikeStore 1 = Some bikeGoal \<and> g_userId bikeGoal = u_id demoUser
      \<and> gd_completed (markCompleteBody bikeGoal) = Some True \<and> \<not> completed bikeGoal"
    using bikeStore_eval(2)
    by (simp add: bikeGoal_def demoUser_def markCompleteBody_def no_goal_data_def)
  show ?thesis
    using coin_awards_overwrite_with_snapshot [OF stored, of 90000000 teaExpense ist
        piggyBody 1 bikeGoal "markCompleteBody bikeGoal"]
      first_today piggy completing
    by blast
qed

section \<open>The fallback tier classifier\<close>

text \<open>
  C5: for every category and amount the fallback classifier answers one of the three
  tiers, by the fixed table: a necessary-leaning category is avoidable above 5000 rupees
  and necessary otherwise; a context-dependent one is avoidable above 1000 rupees and
  necessary otherwise; a discretionary-leaning one is unnecessary above 2000 rupees and
  avoidable otherwise; any other category is unnecessary above 3000 rupees and avoidable
  otherwise. Entertainment at 500 rupees is avoidable, at 2500 rupees unnecessary. The
  classifier is what \<^verbatim>\<open>determineExpenseStatus\<close> answers when the external call fails.
\<close>

theorem fallback_tier_rule_table:
  "fallbackStatusDetermination category amount \<in> {''necessary'', ''avoidable'', ''unnecessary''}
   \<and> (category \<in> {''groceries'', ''utilities'', ''housing'', ''health'', ''transportation'',
                    ''bills'', ''education''} \<longrightarrow>
        fallbackStatusDetermination category amount
          = (if (of_int amount :: rat) / 100 > 5000 then ''avoidable'' else ''necessary''))
   \<and> (category \<in> {''food_and_drinks'', ''personal_care'', ''investment''} \<longrightarrow>
        fallbackStatusDetermination category amount
          = (if (of_int amount :: rat) / 100 > 1000 then ''avoidable'' else ''necessary''))
   \<and> (category \<in> {''entertainment'', ''shopping'', ''travel'', ''gifts''} \<longrightarrow>
        fallbackStatusDetermination category amount
          = (if (of_int amount :: rat) / 100 > 2000 then ''unnecessary'' else ''avoidable''))
   \<and> (category \<notin> {''groceries'', ''utilities'', ''housing'', ''health'', ''transportation'',
                    ''bills'', ''education'', ''food_and_drinks'', ''personal_care'',
                    ''investment'', ''entertainment'', ''shopping'', ''travel'', ''gifts''} \<longrightarrow>
        fallbackStatusDetermination category amount
          = (if (of_int amount :: rat) / 100 > 3000 then ''unnecessary'' else ''avoidable''))
   \<and> fallbackStatusDetermination ''entertainment'' (500 * 100) = ''avoidable''
   \<and> fallbackStatusDetermination ''entertainment'' (2500 * 100) = ''unnecessary''
   \<and> determineExpenseStatus None category amount = fallbackStatusDetermination category amount"
proof (intro conjI impI)
  show "fallbackStatusDetermination category amount \<in> {''necessary'', ''avoidable'', ''unnecessary''}"
    by (simp add: fallbackStatusDetermination_def Let_def)
next
  assume "category \<in> {''groceries'', ''utilities'', ''housing'', ''health'', ''transportation'',
                    ''bills'', ''education''}"
  then have "category \<in> set necessaryCategories" by (simp add: necessaryCategories_def)
  then show "fallbackStatusDetermination category amount
          = (if (of_int amount :: rat) / 100 > 5000 then ''avoidable'' else ''necessary'')"
    by (simp add: fallbackStatusDetermination_def Let_def)
next
  assume a: "category \<in> {''food_and_drinks'', ''personal_care'', ''investment''}"
  then have "category \<in> set potentiallyAvoidableCategories"
    by (simp add: potentiallyAvoidableCategories_def)
  moreover have "category \<notin> set necessaryCategories"
    using a by (auto simp: necessaryCategories_def)
  ultimately show "fallbackStatusDetermination category amount
          = (if (of_int amount :: rat) / 100 > 1000 then ''avoidable'' else ''necessary'')"
    by (simp add: fallbackStatusDetermination_def Let_def)
next
  assume a: "category \<in> {''entertainment'', ''shopping'', ''travel'', ''gifts''}"
  then have "category \<in> set unnecessaryCategories"
    by (simp add: unnecessaryCategories_def)
  moreover have "category \<notin> set necessaryCategories"
    using a by (auto simp: necessaryCategories_def)
  moreover have "category \<notin> set potentiallyAvoidableCategories"
    using a by (auto simp: potentiallyAvoidableCategories_def)
  ultimately show "fallbackStatusDetermination category amount
          = (if (of_int amount :: rat) / 100 > 2000 then ''unnecessary'' else ''avoidable'')"
    by (simp add: fallbackStatusDetermination_def Let_def)
next
  assume a: "category \<notin> {''groceries'', ''utilities'', ''housing'', ''health'', ''transportation'',
                    ''bills'', ''education'', ''food_and_drinks'', ''personal_care'',
                    ''investment'', ''entertainment'', ''shopping'', ''travel'', ''gifts''}"
  have "category \<notin> set unnecessaryCategories"
    using a by (simp add: unnecessaryCategories_def)
  moreover have "category \<notin> set necessaryCategories"
    using a by (simp add: necessaryCategories_def)
  moreover have "category \<notin> set potentiallyAvoidableCategories"
    using a by (simp add: potentiallyAvoidableCategories_def)
  ultimately show "fallbackStatusDetermination category amount
          = (if (of_int amount :: rat) / 100 > 3000 then ''unnecessary'' else ''avoidable'')"
    by (simp add: fallbackStatusDetermination_def Let_def)
next
  show "fallbackStatusDetermination ''entertainment'' (500 * 100) = ''avoidable''"
    by (simp add: fallbackStatusDetermination_def Let_def necessaryCategories_def
        potentiallyAvoidableCategories_def unnecessaryCategories_def)
next
  show "fallbackStatusDetermination ''entertainment'' (2500 * 100) = ''unnecessary''"
    by (simp add: fallbackStatusDetermination_def Let_def necessaryCategories_def
        potentiallyAvoidableCategories_def unnecessaryCategories_def)
next
  show "determineExpenseStatus None category amount = fallbackStatusDetermination category amount"
    by (simp add: determineExpenseStatus_def)
qed

theorem fallback_tier_rule_table_witness:
  "fallbackStatusDetermination ''groceries'' 600000 = ''avoidable''
   \<and> fallbackStatusDetermination ''groceries'' 500000 = ''necessary''
   \<and> fallbackStatusDetermination ''investment'' 100001 = ''avoidable''
   \<and> fallbackStatusDetermination ''personal_care'' 100000 = ''necessary''
   \<and> fallbackStatusDetermination ''travel'' 200001 = ''unnecessary''
   \<and> fallbackStatusDetermination ''gifts'' 200000 = ''avoidable''
   \<and> fallbackStatusDetermination ''other'' 300001 = ''unnecessary''
   \<and> fallbackStatusDetermination ''Movie Tickets'' 300000 = ''avoidable''"
  using fallback_tier_rule_table [of "''groceries''" 600000]
    fallback_tier_rule_table [of "''groceries''" 500000]
    fallback_tier_rule_table [of "''investment''" 100001]
    fallback_tier_rule_table [of "''personal_care''" 100000]
    fallback_tier_rule_table [of "''travel''" 200001]
    fallback_tier_rule_table [of "''gifts''" 200000]
    fallback_tier_rule_table [of "''other''" 300001]
    fallback_tier_rule_table [of "''Movie Tickets''" 300000]
  by simp

section \<open>The weekly savings target\<close>

lemma foldl_sum:
  "foldl (\<lambda>sum x. sum + amount x) a xs = (a :: int) + sum_list (map amount xs)"
  by (induction xs arbitrary: a) simp_all

lemma reduce_sum_eq: "reduce_sum amount xs = sum_list (map amount xs)"
  by (simp add: reduce_sum_def foldl_sum)

lemma Math_round_round: "Math_round x = round x"
  by (simp add: Math_round_def round_def)

lemma startOfWeek_subWeeks: "startOfWeek tz (subWeeks d n) = startOfWeek tz d - n * msPerWeek"
proof -
  have "(d - n * msPerWeek + tz - 4 * msPerDay) mod msPerWeek
      = (d + tz - 4 * msPerDay + (- n) * msPerWeek) mod msPerWeek"
    by (simp add: algebra_simps)
  also have "\<dots> = (d + tz - 4 * msPerDay) mod msPerWeek"
    by (rule mod_mult_self1)
  finally show ?thesis
    by (simp add: startOfWeek_def subWeeks_def)
qed

lemma weekEntry_week_record: "weekEntry tz es ss now i = week_record tz es ss now i"
proof -
  have e: "(if i = 0 then now else subWeeks now i) = subWeeks now i"
    by (simp add: subWeeks_def)
  show ?thesis
    unfolding weekEntry_def week_record_def e
    by (simp add: Let_def startOfWeek_subWeeks endOfWeek_def reduce_sum_eq Math_round_round
        tier_total_def saved_total_def conj_commute conj_left_commute)
qed

lemma weeksLoop_unfold:
  "weeksLoop tz es ss now i result = result @ map (weekEntry tz es ss now) [i..5]"
proof (induction tz es ss now i result rule: weeksLoop.induct)
  case (1 tz es ss now i result)
  show ?case
  proof (cases "i < 6")
    case True
    then have "[i..5] = i # [i + 1..5]" by (simp add: upto_rec1)
    with True "1" show ?thesis by (simp add: weeksLoop.simps [of _ _ _ _ i])
  next
    case False
    then show ?thesis by (simp add: weeksLoop.simps [of _ _ _ _ i])
  qed
qed

lemma generateWeeklyTargets_weeks:
  "generateWeeklyTargets tz (Some es) (Some ss) now = map (week_record tz es ss now) [5, 4, 3, 2, 1, 0]"
proof -
  have "[0..5] = [0, 1, 2, 3, 4, 5::int]" by (simp add: upto.simps)
  then show ?thesis
    by (simp add: generateWeeklyTargets_def weeksLoop_unfold weekEntry_week_record)
qed

lemma startOfWeek_monday:
  "(startOfWeek tz d + tz - 4 * msPerDay) mod msPerWeek = 0"
  "startOfWeek tz d \<le> d" "d < startOfWeek tz d + msPerWeek"
proof -
  have w: "0 < msPerWeek" by (simp add: msPerWeek_def msPerDay_def)
  let ?x = "d + tz - 4 * msPerDay"
  have "startOfWeek tz d + tz - 4 * msPerDay = ?x - ?x mod msPerWeek"
    by (simp add: startOfWeek_def)
  then show "(startOfWeek tz d + tz - 4 * msPerDay) mod msPerWeek = 0"
    by (simp add: minus_mod_eq_mult_div)
  show "startOfWeek tz d \<le> d" using w by (simp add: startOfWeek_def)
  show "d < startOfWeek tz d + msPerWeek"
    using pos_mod_bound [OF w, of ?x] by (simp add: startOfWeek_def)
qed

text \<open>
  C4: for all expenses and savings, the history is six records, one per Monday-to-Sunday
  week, from five weeks back to the current week in that order; the current week's target
  is \<open>round (0.5 \<times> (avoidable + unnecessary))\<close> of that week, every earlier week's target
  is that week's own undiscounted avoidable plus unnecessary total, and each week's actual
  is the sum of the savings dated in it. 200 rupees of avoidable and 100 rupees of
  unnecessary spending in the current week give a target of 15000 paise.
  \<^verbatim>\<open>calculateSavingsRecommendation\<close> computes the same half of the two tier totals.
\<close>

theorem weekly_history:
  "generateWeeklyTargets tz (Some es) (Some ss) now
     = map (week_record tz es ss now) [5, 4, 3, 2, 1, 0]
   \<and> map weekStart (generateWeeklyTargets tz (Some es) (Some ss) now)
       = map (\<lambda>i. startOfWeek tz now - i * msPerWeek) [5, 4, 3, 2, 1, 0]
   \<and> generateWeeklyTargets tz (Some es) None now = generateWeeklyTargets tz (Some es) (Some []) now
   \<and> (startOfWeek tz now + tz - 4 * msPerDay) mod msPerWeek = 0
   \<and> startOfWeek tz now \<le> now \<and> now < startOfWeek tz now + msPerWeek
   \<and> (tier_total ''avoidable'' (startOfWeek tz now) (endOfWeek tz now) es = 200 * 100
        \<and> tier_total ''unnecessary'' (startOfWeek tz now) (endOfWeek tz now) es = 100 * 100
       \<longrightarrow> target (last (generateWeeklyTargets tz (Some es) (Some ss) now)) = 15000)
   \<and> calculateSavingsRecommendation es
       = \<lparr>weekly = round (0.5 * (of_int
                  (sum_list (map e_amount (filter (\<lambda>e. e_status e = ''avoidable'') es))
                   + sum_list (map e_amount (filter (\<lambda>e. e_status e = ''unnecessary'') es)))
                  :: rat)),
          avoidableAmount = sum_list (map e_amount (filter (\<lambda>e. e_status e = ''avoidable'') es)),
          unnecessaryAmount =
            sum_list (map e_amount (filter (\<lambda>e. e_status e = ''unnecessary'') es))\<rparr>"
proof (intro conjI impI)
  show "generateWeeklyTargets tz (Some es) (Some ss) now
     = map (week_record tz es ss now) [5, 4, 3, 2, 1, 0]"
    by (rule generateWeeklyTargets_weeks)
  show "map weekStart (generateWeeklyTargets tz (Some es) (Some ss) now)
       = map (\<lambda>i. startOfWeek tz now - i * msPerWeek) [5, 4, 3, 2, 1, 0]"
    by (simp add: generateWeeklyTargets_weeks week_record_def Let_def)
  show "generateWeeklyTargets tz (Some es) None now
      = generateWeeklyTargets tz (Some es) (Some []) now"
    by (simp add: generateWeeklyTargets_def)
  show "(startOfWeek tz now + tz - 4 * msPerDay) mod msPerWeek = 0"
    "startOfWeek tz now \<le> now" "now < startOfWeek tz now + msPerWeek"
    by (rule startOfWeek_monday)+
  show "calculateSavingsRecommendation es
       = \<lparr>weekly = round (0.5 * (of_int
                  (sum_list (map e_amount (filter (\<lambda>e. e_status e = ''avoidable'') es))
                   + sum_list (map e_amount (filter (\<lambda>e. e_status e = ''unnecessary'') es)))
                  :: rat)),
          avoidableAmount = sum_list (map e_amount (filter (\<lambda>e. e_status e = ''avoidable'') es)),
          unnecessaryAmount =
            sum_list (map e_amount (filter (\<lambda>e. e_status e = ''unnecessary'') es))\<rparr>"
    by (simp add: calculateSavingsRecommendation_def Let_def reduce_sum_eq Math_round_round)
next
  assume a: "tier_total ''avoidable'' (startOfWeek tz now) (endOfWeek tz now) es = 200 * 100
        \<and> tier_total ''unnecessary'' (startOfWeek tz now) (endOfWeek tz now) es = 100 * 100"
  have "target (last (generateWeeklyTargets tz (Some es) (Some ss) now))
      = round (0.5 * (of_int (tier_total ''avoidable'' (startOfWeek tz now) (endOfWeek tz now) es
                        + tier_total ''unnecessary'' (startOfWeek tz now) (endOfWeek tz now) es) :: rat))"
    by (simp add: generateWeeklyTargets_weeks week_record_def Let_def endOfWeek_def)
  also have "\<dots> = round (15000 :: rat)" using a by simp
  also have "\<dots> = 15000" by simp
  finally show "target (last (generateWeeklyTargets tz (Some es) (Some ss) now)) = 15000" .
qed

theorem weekly_history_witness:
  "generateWeeklyTargets ist (Some weekExpenses) (Some weekSavings) (1000 * msPerDay + 5)
     = [\<lparr>weekStart = 83183400000, weekEnd = 83788199999, target = 0, actual = 0\<rparr>,
        \<lparr>weekStart = 83788200000, weekEnd = 84392999999, target = 0, actual = 0\<rparr>,
        \<lparr>weekStart = 84393000000, weekEnd = 84997799999, target = 0, actual = 0\<rparr>,
        \<lparr>weekStart = 84997800000, weekEnd = 85602599999, target = 777, actual = 0\<rparr>,
        \<lparr>weekStart = 85602600000, weekEnd = 86207399999, target = 0, actual = 0\<rparr>,
        \<lparr>weekStart = 86207400000, weekEnd = 86812199999, target = 15000,
         actual = 5000\<rparr>]
   \<and> target (last (generateWeeklyTargets ist (Some weekExpenses) (Some weekSavings)
        (1000 * msPerDay + 5))) = 15000"
proof -
  have totals: "tier_total ''avoidable'' (startOfWeek ist (1000 * msPerDay + 5))
        (endOfWeek ist (1000 * msPerDay + 5)) weekExpenses = 200 * 100
      \<and> tier_total ''unnecessary'' (startOfWeek ist (1000 * msPerDay + 5))
        (endOfWeek ist (1000 * msPerDay + 5)) weekExpenses = 100 * 100"
    by code_simp
  have rows: "map (week_record ist weekExpenses weekSavings (1000 * msPerDay + 5)) [5, 4, 3, 2, 1, 0]
     = [\<lparr>weekStart = 83183400000, weekEnd = 83788199999, target = 0, actual = 0\<rparr>,
        \<lparr>weekStart = 83788200000, weekEnd = 84392999999, target = 0, actual = 0\<rparr>,
        \<lparr>weekStart = 84393000000, weekEnd = 84997799999, target = 0, actual = 0\<rparr>,
        \<lparr>weekStart = 84997800000, weekEnd = 85602599999, target = 777, actual = 0\<rparr>,
        \<lparr>weekStart = 85602600000, weekEnd = 86207399999, target = 0, actual = 0\<rparr>,
        \<lparr>weekStart = 86207400000, weekEnd = 86812199999, target = 15000,
         actual = 5000\<rparr>]"
    by code_simp
  show ?thesis
    using weekly_history [of ist weekExpenses weekSavings "1000 * msPerDay + 5"] totals rows
    by simp
qed

section \<open>Report aggregation\<close>

lemma breakdown_sorted:
  "breakdown key es = Some rows \<Longrightarrow> sorted (map (\<lambda>row. - b_amount row) rows)"
  by (auto simp add: breakdown_def Let_def split: option.splits)

lemma percentageChange_guard: "prev \<le> 0 \<Longrightarrow> percentageChange cur prev = Finite 0"
  by (simp add: percentageChange_def)

text \<open>Doubles at work: \<^verbatim>\<open>(29 / 200) * 100\<close> is just below 14.5, and is rounded to 14.\<close>

lemma percentage_of_29_in_200: "js_Math_round (js_times_100 (js_div 29 200)) = Finite 14"
  by code_simp

text \<open>
  C8 holds of the code only in part. The groups are sorted descending by amount, and the
  month-over-month changes are guarded (\<^verbatim>\<open>prevMonthTotal > 0\<close>) and are 0 when the previous
  total is 0. The two breakdowns divide by \<^verbatim>\<open>totalExpenses\<close> unguarded: in a month whose
  expenses sum to 0 the percentage of a group is \<^verbatim>\<open>NaN\<close> (for an amount of 0) or an
  infinity, never 0. The code at two such months:
\<close>

theorem monthly_report_zero_total_percentages:
  "reduce_sum e_amount freeSampleMonth = 0
   \<and> categoryBreakdown freeSampleMonth
       = Some [\<lparr>b_key = ''other'', b_amount = 0, percentage = NaN\<rparr>]
   \<and> statusBreakdown freeSampleMonth
       = Some [\<lparr>b_key = ''necessary'', b_amount = 0, percentage = NaN\<rparr>]
   \<and> reduce_sum e_amount refundMonth = 0
   \<and> categoryBreakdown refundMonth
       = Some [\<lparr>b_key = ''food_and_drinks'', b_amount = 500, percentage = PosInfinity\<rparr>,
               \<lparr>b_key = ''other'', b_amount = - 500, percentage = NegInfinity\<rparr>]
   \<and> percentageChange 500 0 = Finite 0
   \<and> expenseChange 500 0 = Finite 0"
  by code_simp

end
